theory Spec2Isabelle
  imports Complex_Main "HOL-Library.AList" "HOL-Library.Monad_Syntax"
begin

section \<open>Values of the embedding\<close>

text \<open>
  A JavaScript number is modelled as a real. Comparisons, \<open>Math.max\<close> and \<open>Math.min\<close> are
  exact on doubles. An addition or a division of the source rounds its exact result to the
  nearest double, ties to even; \<open>toDouble\<close> below is that rounding, and \<open>numAdd\<close> and
  \<open>numDiv\<close> are the \<open>+\<close> and \<open>/\<close> of the source: their operands are read as the doubles
  nearest to them, so that a decimal literal stands for the double it denotes. These are
  the additions of the frame scores, the division by the frame count and the sum
  \<open>qc + 0.15\<close> of the arbiter. The ratios of the landmark geometry are computed on the
  reals. NaN and the infinities are not values of the model (magnitudes stay below
  \<open>2 ^ 1024\<close>); where \<open>Number(...)\<close> can produce NaN the result is a \<open>real option\<close> with
  \<open>None\<close> for NaN.

  An expression vector (\<open>Record<string, number>\<close>) is an association list in the order of
  \<open>Object.entries\<close>, which for label keys is insertion order. Its values have the declared
  type \<open>number\<close>, so the test \<open>typeof value === "number"\<close> of the source is true of each.
\<close>

type_synonym expressions = "(string \<times> real) list"

subsection \<open>Rounding to binary64\<close>

text \<open>
  \<open>bitLength n\<close> is the number of binary digits of \<open>n\<close>, and \<open>binaryExponent a\<close>, for
  \<open>a > 0\<close>, the integer \<open>e\<close> with \<open>2 ^ e \<le> a < 2 ^ (e + 1)\<close>. A double with exponent \<open>e\<close> is
  a multiple of \<open>2 ^ (e - 52)\<close>; below the exponent -1022 the spacing stays that of -1022
  (subnormal numbers). \<open>roundEven\<close> rounds to the nearest integer, a tie to the even one.
\<close>

fun bitLength :: "nat \<Rightarrow> nat" where
  "bitLength n = (if n = 0 then 0 else Suc (bitLength (n div 2)))"

declare bitLength.simps [simp del]

definition binaryExponent :: "real \<Rightarrow> int" where
  "binaryExponent a =
     (if 1 \<le> a then int (bitLength (nat \<lfloor>a\<rfloor>)) - 1
      else - int (bitLength (nat (\<lceil>1 / a\<rceil> - 1))))"

definition pow2 :: "int \<Rightarrow> real" where
  "pow2 k = (if 0 \<le> k then 2 ^ nat k else 1 / 2 ^ nat (- k))"

definition roundEven :: "real \<Rightarrow> int" where
  "roundEven y =
     (let f = \<lfloor>y\<rfloor>; r = y - of_int f
      in if r < 1 / 2 then f else if 1 / 2 < r then f + 1 else if even f then f else f + 1)"

definition toDouble :: "real \<Rightarrow> real" where
  "toDouble x =
     (if x = 0 then 0
      else (let a = \<bar>x\<bar>;
                e = max (binaryExponent a) (- 1022);
                q = pow2 (e - 52)
            in sgn x * of_int (roundEven (a / q)) * q))"

definition numAdd :: "real \<Rightarrow> real \<Rightarrow> real" where
  "numAdd a b = toDouble (toDouble a + toDouble b)"

definition numDiv :: "real \<Rightarrow> real \<Rightarrow> real" where
  "numDiv a b = toDouble (toDouble a / toDouble b)"

datatype 'a outcome = Throws | Gives 'a

text \<open>
  The body of a response and the fields of a parsed JSON object are \<open>any\<close>: \<open>jsval\<close> holds
  the JavaScript values such a field can be. \<open>JObj s\<close> is an array or an object whose
  conversion to a string is \<open>s\<close> (an object whose conversion throws is not a value of the
  model). The conversions between numbers and strings are the platform's and are
  parameters.
\<close>

datatype jsval = JUndefined | JNull | JBool bool | JNum real | JStr string | JObj string

record platform =
  numberToString :: "real \<Rightarrow> string"
  stringToNumber :: "string \<Rightarrow> real option"

fun truthy :: "jsval \<Rightarrow> bool" where
  "truthy JUndefined = False"
| "truthy JNull = False"
| "truthy (JBool b) = b"
| "truthy (JNum r) = (r \<noteq> 0)"
| "truthy (JStr s) = (s \<noteq> [])"
| "truthy (JObj s) = True"

fun nullish :: "jsval \<Rightarrow> bool" where
  "nullish JUndefined = True"
| "nullish JNull = True"
| "nullish v = False"

text \<open>\<open>Number(v)\<close>, with \<open>None\<close> for NaN, and \<open>String(v)\<close>.\<close>

fun toNumber :: "platform \<Rightarrow> jsval \<Rightarrow> real option" where
  "toNumber P JUndefined = None"
| "toNumber P JNull = Some 0"
| "toNumber P (JBool b) = Some (if b then 1 else 0)"
| "toNumber P (JNum r) = Some r"
| "toNumber P (JStr s) = stringToNumber P s"
| "toNumber P (JObj s) = stringToNumber P s"

fun toString :: "platform \<Rightarrow> jsval \<Rightarrow> string" where
  "toString P JUndefined = ''undefined''"
| "toString P JNull = ''null''"
| "toString P (JBool b) = (if b then ''true'' else ''false'')"
| "toString P (JNum r) = numberToString P r"
| "toString P (JStr s) = s"
| "toString P (JObj s) = s"

record point =
  point_x :: real
  point_y :: real

record landmarks =
  getMouth :: "point list"
  getLeftEye :: "point list"
  getRightEye :: "point list"
  getLeftEyeBrow :: "point list"

record detection =
  expressions :: "expressions option"
  landmarks :: "landmarks option"

record DetectionResult =
  emotion :: string
  imageSrc :: string
  confidence :: real

section \<open>CameraCapture.tsx: the top-label picker and the fast estimator\<close>

text \<open>
  \<open>getTopEmotion\<close>: the callback of \<open>forEach\<close> replaces \<open>top\<close> by an entry whose value is
  greater than \<open>top.value\<close>; \<open>top\<close> starts as \<open>{key: "neutral", value: -1}\<close>. An absent
  vector returns \<open>{key: "neutral", value: 0}\<close>.
\<close>

definition pickTop :: "string \<times> real \<Rightarrow> string \<times> real \<Rightarrow> string \<times> real" where
  "pickTop cur kv = (if snd kv > snd cur then kv else cur)"

definition getTopEmotion :: "expressions option \<Rightarrow> string \<times> real" where
  "getTopEmotion es =
     (case es of
        None \<Rightarrow> (''neutral'', 0)
      | Some entries \<Rightarrow> foldl pickTop (''neutral'', - 1) entries)"

text \<open>
  The quick detection of \<open>captureAndDetect\<close>. \<open>quickEmotion\<close> and \<open>quickConfidence\<close> start
  as \<open>"neutral"\<close> and \<open>0.5\<close> and keep these values when the detector throws. \<open>det\<close> is
  undefined when no face is found. \<open>top.value\<close> is never nullish, so \<open>top.value ?? 0.5\<close>
  is \<open>top.value\<close>.
\<close>

definition optExpressions :: "detection option \<Rightarrow> expressions option" where
  "optExpressions det = (case det of None \<Rightarrow> None | Some d \<Rightarrow> expressions d)"

definition quickDetect :: "detection option outcome \<Rightarrow> string \<times> real" where
  "quickDetect r =
     (case r of
        Throws \<Rightarrow> (''neutral'', 0.5)
      | Gives det \<Rightarrow>
          (let qExpr = optExpressions det;
               tp = getTopEmotion qExpr;
               quickEmotion = (if snd tp \<ge> 0.2 then fst tp else ''neutral'');
               quickConfidence = max 0.01 (min 0.99 (snd tp))
           in (quickEmotion, quickConfidence)))"

section \<open>CameraCapture.tsx: the deep estimator\<close>

text \<open>
  What the browser, the camera, the detectors and the network answer during one run of
  \<open>captureAndDetect\<close>. \<open>laterShot\<close>, \<open>frameLoads\<close> and \<open>frameResult\<close> are indexed by the loop
  counter \<open>i\<close> of the frame loop; a detector call that rejects is \<open>Throws\<close>, one that finds
  no face is \<open>Gives None\<close>.
\<close>

record classifyData =
  data_emotion :: jsval
  data_confidence :: jsval

datatype fetch_result = FetchFails | Response bool "classifyData outcome"

record world =
  webcam :: bool
  screenshot :: "string option"
  imageLoads :: bool
  quickResult :: "detection option outcome"
  fullModelsLoaded :: bool
  laterShot :: "nat \<Rightarrow> string option"
  frameLoads :: "nat \<Rightarrow> bool"
  frameResult :: "nat \<Rightarrow> detection option outcome"
  landmarkResult :: "detection option outcome"
  classifyResult :: fetch_result

text \<open>\<open>!src\<close> for a value that is a string or null.\<close>

definition noSrc :: "string option \<Rightarrow> bool" where
  "noSrc src = (case src of None \<Rightarrow> True | Some s \<Rightarrow> s = [])"

text \<open>\<open>accum[k] = (accum[k] || 0) + v\<close>, for each entry of a frame's expressions.\<close>

definition orZero :: "real option \<Rightarrow> real" where
  "orZero a = (case a of None \<Rightarrow> 0 | Some r \<Rightarrow> if r = 0 then 0 else r)"

definition addEntry :: "expressions \<Rightarrow> string \<times> real \<Rightarrow> expressions" where
  "addEntry accum kv =
     AList.update (fst kv) (numAdd (orZero (map_of accum (fst kv))) (snd kv)) accum"

definition addFrame :: "expressions \<Rightarrow> expressions \<Rightarrow> expressions" where
  "addFrame accum es = foldl addEntry accum es"

text \<open>
  The frame loop \<open>for (let i = 0; i < frames; i++)\<close>, over the counters still to run.
  A frame without a screenshot is skipped (\<open>continue\<close>); a frame whose image does not
  decode, or whose detector call rejects, ends the background analysis in its \<open>catch\<close>.
\<close>

fun frameLoop :: "world \<Rightarrow> string \<Rightarrow> nat list \<Rightarrow> expressions \<Rightarrow> expressions outcome" where
  "frameLoop w src0 [] accum = Gives accum"
| "frameLoop w src0 (i # rest) accum =
     (let src = (if i = 0 then Some src0 else laterShot w i) in
      if noSrc src then frameLoop w src0 rest accum
      else if \<not> frameLoads w i then Throws
      else (case frameResult w i of
              Throws \<Rightarrow> Throws
            | Gives detection \<Rightarrow>
                (case optExpressions detection of
                   None \<Rightarrow> frameLoop w src0 rest accum
                 | Some es \<Rightarrow> frameLoop w src0 rest (addFrame accum es))))"

definition frameCount :: "bool \<Rightarrow> nat" where
  "frameCount full = (if full then 3 else 1)"

text \<open>\<open>averaged[k] = v / Math.max(1, frames)\<close> for each entry of \<open>accum\<close>.\<close>

definition averageOf :: "nat \<Rightarrow> expressions \<Rightarrow> expressions" where
  "averageOf frames accum =
     foldl (\<lambda>averaged kv. AList.update (fst kv) (numDiv (snd kv) (max 1 (real frames))) averaged)
       [] accum"

text \<open>
  The top of the averaged vector, with the threshold 0.35. The averaged scores are doubles,
  and the literal \<open>0.35\<close> of the source is the double nearest to 0.35, which is below it.
\<close>

definition deepPick :: "expressions \<Rightarrow> string \<times> real" where
  "deepPick averaged =
     (let tp = getTopEmotion (Some averaged);
          finalScore = max 0 (min 1 (snd tp));
          finalEmotion = (if finalScore \<ge> toDouble 0.35 then fst tp else ''neutral'')
      in (finalEmotion, finalScore))"

subsection \<open>Landmark heuristics\<close>

text \<open>
  An array read out of range is \<open>undefined\<close>, and reading \<open>.x\<close> or \<open>.y\<close> of it throws inside
  the \<open>try\<close> of the heuristics, before \<open>finalEmotion\<close> is assigned: \<open>geometry\<close> is \<open>None\<close> then.
\<close>

definition elemAt :: "'a list \<Rightarrow> int \<Rightarrow> 'a option" where
  "elemAt xs i = (if 0 \<le> i \<and> i < int (length xs) then Some (xs ! nat i) else None)"

definition orElse :: "'a option \<Rightarrow> 'a option \<Rightarrow> 'a option" where
  "orElse a b = (case a of None \<Rightarrow> b | Some v \<Rightarrow> Some v)"

definition hypot :: "real \<Rightarrow> real \<Rightarrow> real" where
  "hypot a b = sqrt (a * a + b * b)"

definition orOne :: "real \<Rightarrow> real" where
  "orOne d = (if d = 0 then 1 else d)"

text \<open>The three ratios: (mouthCornerDepression, mouthWidthNorm, browToEye).\<close>

definition geometry :: "landmarks \<Rightarrow> (real \<times> real \<times> real) option" where
  "geometry lm =
     (let mouth = getMouth lm; leftEye = getLeftEye lm; rightEye = getRightEye lm;
          brow = getLeftEyeBrow lm; n = int (length mouth)
      in do {
        le0 \<leftarrow> elemAt leftEye 0;
        re3 \<leftarrow> elemAt rightEye 3;
        leftCorner \<leftarrow> elemAt mouth 0;
        rightCorner \<leftarrow> elemAt mouth (n - 1);
        topLip \<leftarrow> orElse (elemAt mouth (n div 2 - 1)) (elemAt mouth 3);
        bottomLip \<leftarrow> orElse (elemAt mouth (n div 2 + 1)) (elemAt mouth 9);
        browMid \<leftarrow> elemAt brow (int (length brow) div 2);
        let eyeDist = orOne (hypot (point_x le0 - point_x re3) (point_y le0 - point_y re3));
            mouthCenterY = (point_y topLip + point_y bottomLip) / 2;
            mouthCornerDepression =
              ((point_y leftCorner + point_y rightCorner) / 2 - mouthCenterY) / eyeDist;
            mouthWidthNorm =
              hypot (point_x leftCorner - point_x rightCorner)
                    (point_y leftCorner - point_y rightCorner) / eyeDist;
            browInnerYAvg = point_y browMid;
            eyeCenterY = (point_y le0 + point_y re3) / 2;
            browToEye = (browInnerYAvg - eyeCenterY) / eyeDist
        in Some (mouthCornerDepression, mouthWidthNorm, browToEye)
      })"

text \<open>\<open>exprs.k ?? d\<close>.\<close>

definition scoreOr :: "expressions \<Rightarrow> string \<Rightarrow> real \<Rightarrow> real" where
  "scoreOr exprs k d = (case map_of exprs k of None \<Rightarrow> d | Some v \<Rightarrow> v)"

definition sadCondition :: "expressions \<Rightarrow> real \<times> real \<times> real \<Rightarrow> bool" where
  "sadCondition exprs g = (fst g > 0.045 \<or> scoreOr exprs ''sad'' 0 > 0.18)"

definition angryCondition :: "real \<times> real \<times> real \<Rightarrow> bool" where
  "angryCondition g = (snd (snd g) > 0.03 \<and> fst (snd g) < 0.45)"

text \<open>The two \<open>if\<close> statements of the source, one after the other.\<close>

definition applyOverrides :: "expressions \<Rightarrow> real \<times> real \<times> real \<Rightarrow> string \<times> real \<Rightarrow> string \<times> real" where
  "applyOverrides exprs g fin =
     (let fin1 = (if sadCondition exprs g
                  then (''sad'', max (snd fin) (scoreOr exprs ''sad'' 0.6)) else fin);
          fin2 = (if angryCondition g
                  then (''angry'', max (snd fin1) (scoreOr exprs ''angry'' 0.6)) else fin1)
      in fin2)"

definition landmarkHeuristics :: "detection option outcome \<Rightarrow> string \<times> real \<Rightarrow> string \<times> real" where
  "landmarkHeuristics r fin =
     (case r of
        Throws \<Rightarrow> fin
      | Gives None \<Rightarrow> fin
      | Gives (Some d) \<Rightarrow>
          (case landmarks d of
             None \<Rightarrow> fin
           | Some lm \<Rightarrow>
               (case expressions d of
                  None \<Rightarrow> fin
                | Some exprs \<Rightarrow>
                    (case geometry lm of
                       None \<Rightarrow> fin
                     | Some g \<Rightarrow> applyOverrides exprs g fin))))"

subsection \<open>Remote fallback and arbiter\<close>

text \<open>
  The body of \<open>if (finalEmotion === "neutral")\<close> after the request is sent. A rejected
  \<open>fetch\<close> (also the abort after 8 seconds), a rejected \<open>res.json()\<close> and a body that is
  \<open>null\<close> all end in the \<open>catch\<close>, which leaves the result as it was: these are
  \<open>FetchFails\<close> and the body \<open>Throws\<close>. A body that is not an object has neither field.
\<close>

definition remoteFallback :: "platform \<Rightarrow> fetch_result \<Rightarrow> string \<times> real \<Rightarrow> string \<times> real" where
  "remoteFallback P res fin =
     (case res of
        FetchFails \<Rightarrow> fin
      | Response ok body \<Rightarrow>
          if ok then
            (case body of
               Throws \<Rightarrow> fin
             | Gives d \<Rightarrow>
                 (case toNumber P (if nullish (data_confidence d) then JNum 0 else data_confidence d) of
                    None \<Rightarrow> fin
                  | Some c \<Rightarrow>
                      (let conf = max 0 (min 1 c) in
                       if truthy (data_emotion d) \<and> conf \<ge> 0.2
                       then (toString P (data_emotion d), max (snd fin) conf)
                       else fin)))
          else fin)"

text \<open>The requests sent to \<open>/api/classify\<close>: the image and the averaged vector of each.\<close>

definition fallbackStage ::
  "platform \<Rightarrow> fetch_result \<Rightarrow> string \<Rightarrow> expressions \<Rightarrow> string \<times> real
     \<Rightarrow> (string \<times> real) \<times> (string \<times> expressions) list" where
  "fallbackStage P res src0 averaged fin =
     (if fst fin = ''neutral''
      then (remoteFallback P res fin, [(src0, averaged)])
      else (fin, []))"

text \<open>
  The last block of the background analysis: the calls of \<open>onDetected\<close> it makes.
  \<open>quickConfidence\<close> is a number, so \<open>qc = quickConfidence ?? 0.5\<close> is \<open>quickConfidence\<close>.
  The sum \<open>qc + 0.15\<close> is a sum of doubles, and the two comparisons compare doubles.
\<close>

definition arbiter :: "string \<Rightarrow> real \<Rightarrow> string \<Rightarrow> string \<Rightarrow> real \<Rightarrow> DetectionResult list" where
  "arbiter quickEmotion quickConfidence src0 finalEmotion finalConfidence =
     (let qc = quickConfidence in
      if finalEmotion \<noteq> [] \<and> finalEmotion \<noteq> quickEmotion then
        (let needsUpdate = (toDouble finalConfidence \<ge> numAdd qc 0.15
                            \<or> toDouble finalConfidence \<ge> toDouble 0.5) in
         if needsUpdate
         then [\<lparr>emotion = finalEmotion, imageSrc = src0, confidence = finalConfidence\<rparr>]
         else [])
      else [])"

text \<open>
  The deep estimator up to the arbiter: the final (emotion, confidence) and the requests
  sent, or \<open>Throws\<close> when the frame loop ended in the outer \<open>catch\<close>.
\<close>

definition deepFinal ::
  "platform \<Rightarrow> world \<Rightarrow> string \<Rightarrow> ((string \<times> real) \<times> (string \<times> expressions) list) outcome" where
  "deepFinal P w src0 =
     (let frames = frameCount (fullModelsLoaded w) in
      case frameLoop w src0 [0..<frames] [] of
        Throws \<Rightarrow> Throws
      | Gives accum \<Rightarrow>
          (let averaged = averageOf frames accum;
               fin0 = deepPick averaged;
               fin1 = (if fullModelsLoaded w then landmarkHeuristics (landmarkResult w) fin0
                       else fin0)
           in Gives (fallbackStage P (classifyResult w) src0 averaged fin1)))"

record trace =
  detected :: "DetectionResult list"
  requests :: "(string \<times> expressions) list"
  errorMessage :: "string option"

definition backgroundAnalysis ::
  "platform \<Rightarrow> world \<Rightarrow> string \<Rightarrow> string \<times> real
     \<Rightarrow> DetectionResult list \<times> (string \<times> expressions) list" where
  "backgroundAnalysis P w src0 quick =
     (case deepFinal P w src0 of
        Throws \<Rightarrow> ([], [])
      | Gives (fin, reqs) \<Rightarrow> (arbiter (fst quick) (snd quick) src0 (fst fin) (snd fin), reqs))"

text \<open>
  \<open>captureAndDetect\<close>: the calls of \<open>onDetected\<close> in order, the classify requests, and the
  error message set by the outer \<open>catch\<close>.
\<close>

definition captureFailed :: "string \<Rightarrow> trace" where
  "captureFailed msg = \<lparr>detected = [], requests = [], errorMessage = Some msg\<rparr>"

definition captureAndDetect :: "platform \<Rightarrow> world \<Rightarrow> trace" where
  "captureAndDetect P w =
     (if \<not> webcam w then \<lparr>detected = [], requests = [], errorMessage = None\<rparr>
      else
        (case screenshot w of
           None \<Rightarrow> captureFailed ''Unable to capture image''
         | Some src0 \<Rightarrow>
             if src0 = [] then captureFailed ''Unable to capture image''
             else if \<not> imageLoads w then captureFailed ''Failed to load image''
             else
               (let quick = quickDetect (quickResult w);
                    provisional = \<lparr>emotion = fst quick, imageSrc = src0, confidence = snd quick\<rparr>;
                    bg = backgroundAnalysis P w src0 quick
                in \<lparr>detected = provisional # fst bg, requests = snd bg, errorMessage = None\<rparr>)))"

section \<open>server/routes/openai-classify.ts\<close>

text \<open>
  The request: \<open>req.body\<close> (undefined when no body was parsed) with its fields \<open>image\<close> and
  \<open>expressions\<close>, each \<open>JUndefined\<close> when absent. The credential is \<open>process.env.OPENAI_API_KEY\<close>.

  An upstream call either rejects (network error, timeout, an error status of the model) or
  returns a response. Of a response the model keeps what the two parsing steps of the
  handler find in it: \<open>textJson\<close> is the object that \<open>JSON.parse\<close> reads from the stretch
  between the first \<open>{\<close> and the last \<open>}\<close> of the extracted text, \<open>rawJson\<close> the object read
  from the first match of \<open>/\{[^\}]{10,}\}/\<close> in the serialised body; each is \<open>None\<close> when
  nothing matches or the match does not parse. A parsed value is an object, of which the
  handler reads the fields \<open>emotion\<close> and \<open>confidence\<close>.
\<close>

record classifyRequest =
  image :: jsval
  req_expressions :: jsval

record parsedObject =
  parsed_emotion :: jsval
  parsed_confidence :: jsval

record upstreamResponse =
  textJson :: "parsedObject option"
  rawJson :: "parsedObject option"

datatype upstream = CallFails | CallReturns upstreamResponse

datatype responseBody =
    ErrorBody string
  | Classified string real "string option"

record response =
  status :: nat
  body :: responseBody

definition allowed :: "string list" where
  "allowed = [''happy'', ''sad'', ''angry'', ''surprised'', ''fearful'', ''disgusted'', ''neutral'']"

text \<open>
  \<open>toLowerCase\<close> on the ASCII letters; other characters stay. (No character outside ASCII
  is mapped by JavaScript to a letter of the seven labels, so membership in \<open>allowed\<close>
  is the same.)
\<close>

definition toLowerChar :: "char \<Rightarrow> char" where
  "toLowerChar c =
     (case map_of (zip ''ABCDEFGHIJKLMNOPQRSTUVWXYZ'' ''abcdefghijklmnopqrstuvwxyz'') c of
        None \<Rightarrow> c
      | Some l \<Rightarrow> l)"

definition toLowerCase :: "string \<Rightarrow> string" where
  "toLowerCase s = map toLowerChar s"

text \<open>
  The block after \<open>// sanitize\<close>:
  \<open>parsed.emotion = String(parsed.emotion || "neutral").toLowerCase()\<close>, the test against
  \<open>allowed\<close>, and \<open>Math.max(0, Math.min(1, Number(parsed.confidence) || 0.5))\<close>, where
  \<open>n || 0.5\<close> is \<open>0.5\<close> when \<open>n\<close> is NaN or zero.
\<close>

definition sanitize :: "platform \<Rightarrow> parsedObject \<Rightarrow> string \<times> real" where
  "sanitize P parsed =
     (let lowered = toLowerCase (toString P (if truthy (parsed_emotion parsed)
                                             then parsed_emotion parsed else JStr ''neutral''));
          em = (if lowered \<in> set allowed then lowered else ''neutral'');
          conf = max 0 (min 1 (case toNumber P (parsed_confidence parsed) of
                                None \<Rightarrow> 0.5
                              | Some n \<Rightarrow> if n = 0 then 0.5 else n))
      in (em, conf))"

definition parseResponse :: "upstreamResponse \<Rightarrow> parsedObject" where
  "parseResponse resp =
     (case textJson resp of
        Some parsed \<Rightarrow> parsed
      | None \<Rightarrow>
          (case rawJson resp of
             Some parsed \<Rightarrow> parsed
           | None \<Rightarrow> \<lparr>parsed_emotion = JStr ''neutral'', parsed_confidence = JNum 0.5\<rparr>))"

definition respond :: "platform \<Rightarrow> upstreamResponse \<Rightarrow> response" where
  "respond P resp =
     (let r = sanitize P (parseResponse resp)
      in \<lparr>status = 200, body = Classified (fst r) (snd r) None\<rparr>)"

definition failWith :: "nat \<Rightarrow> string \<Rightarrow> response" where
  "failWith code msg = \<lparr>status = code, body = ErrorBody msg\<rparr>"

definition noKey :: "string option \<Rightarrow> bool" where
  "noKey k = (case k of None \<Rightarrow> True | Some s \<Rightarrow> s = [])"

text \<open>
  \<open>handleOpenAIClassify\<close>, given the credential, the request, and what the vision call and
  the text-only call answer. Reading \<open>image\<close> of an undefined body throws into the outer
  \<open>catch\<close>, which answers with the neutral body and the note.
\<close>

definition handleOpenAIClassify ::
  "platform \<Rightarrow> string option \<Rightarrow> classifyRequest option \<Rightarrow> upstream \<Rightarrow> upstream \<Rightarrow> response" where
  "handleOpenAIClassify P apiKey reqBody vision textOnly =
     (case reqBody of
        None \<Rightarrow> \<lparr>status = 200, body = Classified ''neutral'' 0.5 (Some ''openai_error'')\<rparr>
      | Some b \<Rightarrow>
          if \<not> truthy (image b) then failWith 400 ''Missing image in request body''
          else if noKey apiKey then failWith 500 ''OpenAI API key not configured''
          else
            (case vision of
               CallReturns resp \<Rightarrow> respond P resp
             | CallFails \<Rightarrow>
                 if truthy (req_expressions b) then
                   (case textOnly of
                      CallReturns resp \<Rightarrow> respond P resp
                    | CallFails \<Rightarrow>
                        failWith 500
                          ''Failed to classify image (both vision and text fallbacks failed)'')
                 else failWith 500 ''Failed to classify image (vision model failed)''))"

section \<open>EmotionResult: the suggestion provider\<close>

text \<open>
  A \<open>fetch\<close> either rejects or gives a response with its \<open>ok\<close> flag; of the body the model
  keeps the field the component reads (\<open>joke\<close> or \<open>quote\<close>, \<open>JUndefined\<close> when absent), or
  \<open>Throws\<close> when \<open>json()\<close> rejects. The effect never sets \<open>cancelled\<close>, so it is false.
  For \<open>"sad"\<close> both requests are sent before either answer is read (\<open>Promise.all\<close>).
\<close>

datatype fetched = NetworkError | Resp bool "jsval outcome"

record suggestionNet =
  jokeA :: fetched
  jokeB :: fetched
  quoteResp :: fetched

record view =
  message :: jsval
  loading :: bool
  error :: "string option"

definition emDash :: string where
  "emDash = [CHR 0xE2, CHR 0x80, CHR 0x94]"

definition intro :: string where
  "intro = ''Hey '' @ emDash @ '' I can tell this is a tough moment. Here are a couple of light jokes to hopefully lift you up:'' @ [CHR 0x0A, CHR 0x0A]"

text \<open>\<open>a.ok ? await a.json() : null\<close> followed by \<open>?.joke\<close>.\<close>

definition jokeOf :: "fetched \<Rightarrow> jsval outcome" where
  "jokeOf r =
     (case r of
        NetworkError \<Rightarrow> Throws
      | Resp ok b \<Rightarrow> if ok then b else Gives JUndefined)"

fun joinJokes :: "string list \<Rightarrow> string" where
  "joinJokes [] = []"
| "joinJokes [l] = l"
| "joinJokes (l # ls) = l @ [CHR 0x0A, CHR 0x0A] @ joinJokes ls"

text \<open>The text of the suggestion and the URLs fetched, in order.\<close>

definition suggestionText ::
  "platform \<Rightarrow> string \<Rightarrow> suggestionNet \<Rightarrow> jsval outcome \<times> string list" where
  "suggestionText P em net =
     (if em = ''sad'' then
        (case (jokeOf (jokeA net), jokeOf (jokeB net)) of
           (Gives ja, Gives jb) \<Rightarrow>
             (let jokes = filter truthy [ja, jb];
                  numbered = map (\<lambda>(i, j). i @ ''. '' @ toString P j) (zip [''1'', ''2''] jokes)
              in (Gives (JStr (intro @ (if jokes \<noteq> [] then joinJokes numbered
                                          else ''Here's a smile for you!''))),
                  [''/api/joke'', ''/api/joke'']))
         | _ \<Rightarrow> (Throws, [''/api/joke'', ''/api/joke'']))
      else if em = ''angry'' then
        (case quoteResp net of
           NetworkError \<Rightarrow> (Throws, [''/api/quote''])
         | Resp ok b \<Rightarrow>
             if \<not> ok then (Throws, [''/api/quote''])
             else
               (case b of
                  Throws \<Rightarrow> (Throws, [''/api/quote''])
                | Gives quote \<Rightarrow>
                    (Gives (if truthy quote then quote else JStr ''Breathe. Reset. Refocus.''),
                     [''/api/quote''])))
      else if em = ''happy'' then
        (Gives (JStr (''Keep smiling! '' @ [CHR 0xF0, CHR 0x9F, CHR 0x8C, CHR 0x9E])), [])
      else
        (Gives (JStr (''I hope you'' @ [CHR 0xE2, CHR 0x80, CHR 0x99] @ ''re doing well ''
                      @ [CHR 0xE2, CHR 0x9D, CHR 0xA4, CHR 0xEF, CHR 0xB8, CHR 0x8F])), []))"

text \<open>The effect \<open>run\<close>: the state it leaves, from the state it starts in.\<close>

definition run :: "platform \<Rightarrow> string \<Rightarrow> suggestionNet \<Rightarrow> view \<Rightarrow> view \<times> string list" where
  "run P em net st =
     (let st1 = st\<lparr>loading := True, error := None\<rparr>;
          r = suggestionText P em net
      in case fst r of
           Gives text \<Rightarrow> (st1\<lparr>message := text, loading := False\<rparr>, snd r)
         | Throws \<Rightarrow>
             (st1\<lparr>error := Some ''Failed to fetch suggestion. Please try again.'',
                   loading := False\<rparr>, snd r))"

text \<open>What the paragraph under the title shows.\<close>

definition displayed :: "view \<Rightarrow> jsval" where
  "displayed st =
     (if loading st then JStr (''Getting something for you'' @ [CHR 0xE2, CHR 0x80, CHR 0xA6])
      else (case error st of Some e \<Rightarrow> JStr e | None \<Rightarrow> message st))"

section \<open>Notions used to state the properties\<close>

text \<open>
  The scores that a list of vectors gives to a label, in order; the vector that the frame
  with counter \<open>i\<close> adds to \<open>accum\<close> (empty when the frame is skipped or shows no face);
  and whether that frame ends the analysis.
\<close>

definition labelValues :: "expressions list \<Rightarrow> string \<Rightarrow> real list" where
  "labelValues fs k = concat (map (\<lambda>f. map snd (filter (\<lambda>kv. fst kv = k) f)) fs)"

definition frameExpressions :: "world \<Rightarrow> string \<Rightarrow> nat \<Rightarrow> expressions" where
  "frameExpressions w src0 i =
     (if noSrc (if i = 0 then Some src0 else laterShot w i) then []
      else (case frameResult w i of
              Throws \<Rightarrow> []
            | Gives detection \<Rightarrow>
                (case optExpressions detection of None \<Rightarrow> [] | Some es \<Rightarrow> es)))"

definition frameThrows :: "world \<Rightarrow> string \<Rightarrow> nat \<Rightarrow> bool" where
  "frameThrows w src0 i =
     (if noSrc (if i = 0 then Some src0 else laterShot w i) then False
      else if \<not> frameLoads w i then True
      else (case frameResult w i of Throws \<Rightarrow> True | Gives detection \<Rightarrow> False))"

text \<open>
  The averaged vector of a run whose frames all complete, and the estimate after averaging
  and heuristics, before the remote fallback.
\<close>

definition averagedVector :: "world \<Rightarrow> string \<Rightarrow> expressions" where
  "averagedVector w src0 =
     averageOf (frameCount (fullModelsLoaded w))
       (foldl addFrame []
          (map (frameExpressions w src0) [0..<frameCount (fullModelsLoaded w)]))"

definition localEstimate :: "world \<Rightarrow> string \<Rightarrow> string \<times> real" where
  "localEstimate w src0 =
     (if fullModelsLoaded w
      then landmarkHeuristics (landmarkResult w) (deepPick (averagedVector w src0))
      else deepPick (averagedVector w src0))"

definition clamp01 :: "real \<Rightarrow> real" where
  "clamp01 c = max 0 (min 1 c)"




section \<open>Example inputs\<close>

text \<open>A detection with the given expression vector and no landmarks.\<close>

definition faceWith :: "expressions \<Rightarrow> detection option" where
  "faceWith es = Some \<lparr>expressions = Some es, landmarks = None\<rparr>"

text \<open>
  A run with only the fast tier loaded: the quick detector answers \<open>quick\<close>, the single
  frame of the deep pass answers \<open>deep\<close>, and the classify request is rejected.
\<close>

definition fastOnly :: "detection option \<Rightarrow> detection option \<Rightarrow> world" where
  "fastOnly quick deep =
     \<lparr>webcam = True, screenshot = Some ''data:image/jpeg;base64,AAAA'', imageLoads = True,
      quickResult = Gives quick, fullModelsLoaded = False,
      laterShot = (\<lambda>i. None), frameLoads = (\<lambda>i. True), frameResult = (\<lambda>i. Gives deep),
      landmarkResult = Throws, classifyResult = FetchFails\<rparr>"

text \<open>
  A run with both tiers loaded: frame \<open>i\<close> of the deep pass answers \<open>frames i\<close>, the quick
  detector answers as frame 0, the landmark pass answers \<open>lm\<close> and the classify request \<open>res\<close>.
\<close>

definition fullTier :: "(nat \<Rightarrow> detection option) \<Rightarrow> detection option outcome \<Rightarrow> fetch_result \<Rightarrow> world" where
  "fullTier frames lm res =
     \<lparr>webcam = True, screenshot = Some ''data:image/jpeg;base64,AAAA'', imageLoads = True,
      quickResult = Gives (frames 0), fullModelsLoaded = True,
      laterShot = (\<lambda>i. Some ''data:image/jpeg;base64,BBBB''), frameLoads = (\<lambda>i. True),
      frameResult = (\<lambda>i. Gives (frames i)),
      landmarkResult = lm, classifyResult = res\<rparr>"

text \<open>Frames whose only label is \<open>sad\<close>, with the scores 0.1, 0.2 and 0.3.\<close>

definition sadFrames :: "nat \<Rightarrow> detection option" where
  "sadFrames i = faceWith [(''sad'', [0.1, 0.2, 0.3] ! i)]"

text \<open>Frames whose only label is \<open>happy\<close>, each with the score 0.35.\<close>

definition happyFrames :: "nat \<Rightarrow> detection option" where
  "happyFrames i = faceWith [(''happy'', 0.35)]"

text \<open>
  Landmarks of the 68-point model (20 mouth points, 6 points for each eye, 5 brow points)
  with inter-eye distance 100, the mouth corners 5 below the mouth centre and 40 apart,
  and the middle brow point 10 below the eye line: depression 0.05, width 0.4, gap 0.1.
\<close>

definition pt :: "real \<Rightarrow> real \<Rightarrow> point" where
  "pt a b = \<lparr>point_x = a, point_y = b\<rparr>"

definition frown :: landmarks where
  "frown =
     \<lparr>getMouth =
        [pt 30 160, pt 34 158, pt 40 156, pt 50 155, pt 60 156, pt 66 158, pt 70 160,
         pt 66 162, pt 60 164, pt 50 150, pt 40 164, pt 50 160, pt 36 160, pt 42 158,
         pt 50 158, pt 58 158, pt 64 160, pt 58 161, pt 50 161, pt 70 160],
      getLeftEye = [pt 0 100, pt 5 97, pt 12 97, pt 18 100, pt 12 102, pt 5 102],
      getRightEye = [pt 82 100, pt 88 97, pt 95 97, pt 100 100, pt 95 102, pt 88 102],
      getLeftEyeBrow = [pt 0 112, pt 5 110, pt 10 110, pt 15 110, pt 20 112]\<rparr>"

text \<open>The same mouth under a brow 10 above the eye line: gap -0.1.\<close>

definition pout :: landmarks where
  "pout = frown\<lparr>getLeftEyeBrow := [pt 0 88, pt 5 90, pt 10 90, pt 15 90, pt 20 88]\<rparr>"

section \<open>Properties\<close>

subsection \<open>Rounding to binary64\<close>

text \<open>
  \<open>binaryExponent\<close> brackets a positive number between two powers of two, and \<open>toDouble x\<close>
  is a multiple of the spacing of that binade within half a spacing of \<open>x\<close>: the nearest
  double, the even one on a tie.
\<close>

lemma bitLength_bounds: "0 < n \<Longrightarrow> 2 ^ (bitLength n - 1) \<le> n \<and> n < 2 ^ bitLength n"
proof (induction n rule: bitLength.induct)
  case (1 n)
  show ?case
  proof (cases "n div 2 = 0")
    case True
    then have "n = 1" using "1.prems" by linarith
    then show ?thesis by (simp add: bitLength.simps)
  next
    case False
    then have pos: "0 < n div 2" by simp
    have IH: "2 ^ (bitLength (n div 2) - 1) \<le> n div 2 \<and> n div 2 < 2 ^ bitLength (n div 2)"
      using "1.IH" "1.prems" pos by simp
    have b: "bitLength n = Suc (bitLength (n div 2))"
      using "1.prems" by (simp add: bitLength.simps[of n])
    have bpos: "0 < bitLength (n div 2)"
      using pos by (simp add: bitLength.simps[of "n div 2"])
    then obtain m where m: "bitLength (n div 2) = Suc m" by (cases "bitLength (n div 2)") auto
    have lo: "2 * 2 ^ m \<le> n" using IH m by simp linarith
    have hi: "n < 2 * 2 ^ Suc m" using IH m by simp linarith
    show ?thesis using lo hi b m by simp
  qed
qed

lemma pow2_pos: "0 < pow2 k"
  by (simp add: pow2_def)

lemma pow2_nat: "pow2 (int n) = 2 ^ n"
  by (simp add: pow2_def)

lemma pow2_neg_nat: "pow2 (- int n) = 1 / 2 ^ n"
  by (cases "n = 0") (simp_all add: pow2_def)

lemma binaryExponent_bounds:
  assumes "0 < a"
  shows "pow2 (binaryExponent a) \<le> a \<and> a < pow2 (binaryExponent a + 1)"
proof (cases "1 \<le> a")
  case True
  let ?n = "nat \<lfloor>a\<rfloor>"
  have n: "0 < ?n" using True by simp
  obtain b where b: "bitLength ?n = Suc b"
    using n by (cases "bitLength ?n") (auto simp: bitLength.simps[of ?n])
  have bb: "2 ^ b \<le> ?n \<and> ?n < 2 ^ Suc b" using bitLength_bounds[OF n] b by simp
  have e: "binaryExponent a = int b" using True b by (simp add: binaryExponent_def)
  have "real ?n \<le> a" using True by simp
  moreover have "(2::real) ^ b \<le> real ?n" using bb by (metis of_nat_le_iff of_nat_numeral of_nat_power)
  ultimately have lo: "2 ^ b \<le> a" by linarith
  have "?n + 1 \<le> 2 ^ Suc b" using bb by linarith
  then have "real (?n + 1) \<le> 2 ^ Suc b" by (metis of_nat_le_iff of_nat_numeral of_nat_power)
  moreover have "a < real (?n + 1)" using True by simp linarith
  ultimately have hi: "a < 2 ^ Suc b" by linarith
  have "pow2 (int b + 1) = 2 ^ Suc b" using pow2_nat[of "Suc b"] by (simp add: add.commute)
  then show ?thesis using lo hi e by (simp add: pow2_nat)
next
  case False
  then have a1: "a < 1" by simp
  let ?m = "nat (\<lceil>1 / a\<rceil> - 1)"
  have inv: "1 < 1 / a" using assms a1 by simp
  then have c2: "2 \<le> \<lceil>1 / a\<rceil>" by linarith
  then have m: "0 < ?m" by simp
  obtain b where b: "bitLength ?m = Suc b"
    using m by (cases "bitLength ?m") (auto simp: bitLength.simps[of ?m])
  have bb: "2 ^ b \<le> ?m \<and> ?m < 2 ^ Suc b" using bitLength_bounds[OF m] b by simp
  have e: "binaryExponent a = - int (Suc b)" using False b by (simp add: binaryExponent_def)
  have mlt: "real ?m < 1 / a" using c2 by simp linarith
  have mge: "1 / a \<le> real ?m + 1" using c2 by simp linarith
  have "?m + 1 \<le> 2 ^ Suc b" using bb by linarith
  then have "real (?m + 1) \<le> 2 ^ Suc b" by (metis of_nat_le_iff of_nat_numeral of_nat_power)
  then have "1 / a \<le> 2 ^ Suc b" using mge by simp
  then have lo: "1 / 2 ^ Suc b \<le> a"
    using assms by (simp add: field_simps)
  have "(2::real) ^ b \<le> real ?m" using bb by (metis of_nat_le_iff of_nat_numeral of_nat_power)
  then have "2 ^ b < 1 / a" using mlt by linarith
  then have hi: "a < 1 / 2 ^ b"
    using assms by (simp add: field_simps)
  have p1: "pow2 (- int (Suc b)) = 1 / 2 ^ Suc b" by (rule pow2_neg_nat)
  have "- int (Suc b) + 1 = - int b" by simp
  then have p2: "pow2 (- int (Suc b) + 1) = 1 / 2 ^ b" using pow2_neg_nat[of b] by simp
  show ?thesis unfolding e p1 p2 using lo hi by simp
qed

lemma roundEven_near: "\<bar>of_int (roundEven y) - y\<bar> \<le> 1 / 2"
proof -
  define f where "f = \<lfloor>y\<rfloor>"
  define r where "r = y - of_int f"
  have r: "0 \<le> r" "r < 1" unfolding r_def f_def by linarith+
  have y: "y = of_int f + r" unfolding r_def by simp
  have "roundEven y = (if r < 1 / 2 then f else if 1 / 2 < r then f + 1
                       else if even f then f else f + 1)"
    unfolding roundEven_def Let_def f_def[symmetric] r_def[symmetric] ..
  then consider "roundEven y = f" "r \<le> 1 / 2" | "roundEven y = f + 1" "1 / 2 \<le> r"
    by (cases "r < 1 / 2"; cases "1 / 2 < r"; cases "even f") (auto simp: not_less)
  then show ?thesis
  proof cases
    case 1
    then show ?thesis using r y by simp
  next
    case 2
    then show ?thesis using r y by simp
  qed
qed

lemma toDouble_near:
  assumes "x \<noteq> 0"
  shows "\<bar>toDouble x - x\<bar> \<le> pow2 (max (binaryExponent \<bar>x\<bar>) (- 1022) - 52) / 2"
proof -
  define q where "q = pow2 (max (binaryExponent \<bar>x\<bar>) (- 1022) - 52)"
  define n :: real where "n = of_int (roundEven (\<bar>x\<bar> / q))"
  have q: "0 < q" unfolding q_def by (rule pow2_pos)
  have near: "\<bar>n - \<bar>x\<bar> / q\<bar> \<le> 1 / 2" unfolding n_def by (rule roundEven_near)
  have "n * q - \<bar>x\<bar> = (n - \<bar>x\<bar> / q) * q" using q by (simp add: left_diff_distrib)
  then have "\<bar>n * q - \<bar>x\<bar>\<bar> = \<bar>n - \<bar>x\<bar> / q\<bar> * q" using q by (simp only: abs_mult abs_of_pos)
  also have "\<dots> \<le> 1 / 2 * q" using near q by (rule mult_right_mono[OF _ less_imp_le])
  finally have bound: "\<bar>n * q - \<bar>x\<bar>\<bar> \<le> q / 2" by simp
  have t: "toDouble x = sgn x * n * q"
    using assms unfolding toDouble_def Let_def q_def n_def by simp
  have "x = sgn x * \<bar>x\<bar>" by (simp add: sgn_real_def)
  then have "toDouble x - x = sgn x * (n * q - \<bar>x\<bar>)"
    unfolding t by (metis mult.assoc right_diff_distrib)
  then have "\<bar>toDouble x - x\<bar> = \<bar>sgn x\<bar> * \<bar>n * q - \<bar>x\<bar>\<bar>" by (simp only: abs_mult)
  also have "\<bar>sgn x\<bar> = 1" using assms by (simp add: sgn_real_def)
  finally show ?thesis using bound unfolding q_def by simp
qed

lemma double_examples:
  "toDouble 0.1 = 3602879701896397 / 2 ^ 55
   \<and> numAdd 0.1 0.2 = 1351079888211149 / 2 ^ 52
   \<and> toDouble 0.5 = 0.5 \<and> toDouble 3 = 3
   \<and> toDouble (1 / 3) = 6004799503160661 / 2 ^ 54"
  by code_simp

lemma half_double: "toDouble 0.5 = 0.5"
  by code_simp

subsection \<open>The top-label picker\<close>

lemma pickTop_ge: "snd (foldl pickTop acc es) \<ge> snd acc"
  by (induction es rule: rev_induct) (auto simp: pickTop_def)

lemma pickTop_upper: "kv \<in> set es \<Longrightarrow> snd kv \<le> snd (foldl pickTop acc es)"
  by (induction es rule: rev_induct) (auto simp: pickTop_def)

lemma pickTop_keep: "(\<forall>kv \<in> set es. snd kv \<le> snd acc) \<Longrightarrow> foldl pickTop acc es = acc"
  by (induction es rule: rev_induct) (auto simp: pickTop_def)

lemma pickTop_origin:
  "foldl pickTop acc es = acc \<or>
   (\<exists>i < length es. foldl pickTop acc es = es ! i \<and> snd acc < snd (es ! i) \<and> (\<forall>j < i. snd (es ! j) < snd (es ! i)))"
proof (induction es rule: rev_induct)
  case Nil
  then show ?case by simp
next
  case (snoc x xs)
  let ?r = "foldl pickTop acc xs"
  show ?case
  proof (cases "snd x > snd ?r")
    case True
    have up: "\<forall>j < length xs. snd (xs ! j) < snd x"
      using True pickTop_upper[of _ xs acc] by (metis le_less_trans nth_mem)
    have "snd acc < snd x" using True pickTop_ge[of acc xs] by linarith
    moreover have "foldl pickTop acc (xs @ [x]) = x" using True by (simp add: pickTop_def)
    ultimately have "length xs < length (xs @ [x]) \<and> foldl pickTop acc (xs @ [x]) = (xs @ [x]) ! length xs
        \<and> snd acc < snd ((xs @ [x]) ! length xs)
        \<and> (\<forall>j < length xs. snd ((xs @ [x]) ! j) < snd ((xs @ [x]) ! length xs))"
      using up by (simp add: nth_append)
    then show ?thesis by blast
  next
    case False
    then have eq: "foldl pickTop acc (xs @ [x]) = ?r" by (simp add: pickTop_def)
    from snoc show ?thesis
    proof
      assume "?r = acc" then show ?thesis using eq by simp
    next
      assume "\<exists>i<length xs. ?r = xs ! i \<and> snd acc < snd (xs ! i) \<and> (\<forall>j<i. snd (xs ! j) < snd (xs ! i))"
      then obtain i where i: "i < length xs" "?r = xs ! i" "snd acc < snd (xs ! i)" "\<forall>j<i. snd (xs ! j) < snd (xs ! i)" by blast
      then show ?thesis using eq
        by (auto simp: nth_append intro!: exI[of _ i])
    qed
  qed
qed

lemma pickTop_first_entry:
  assumes "\<exists>kv \<in> set es. snd acc < snd kv"
  shows "\<exists>i < length es. foldl pickTop acc es = es ! i \<and> snd acc < snd (es ! i)
           \<and> (\<forall>j < length es. snd (es ! j) \<le> snd (es ! i))
           \<and> (\<forall>j < i. snd (es ! j) < snd (es ! i))"
proof -
  let ?r = "foldl pickTop acc es"
  from assms obtain kv where kv: "kv \<in> set es" "snd acc < snd kv" by blast
  then have "snd acc < snd ?r" using pickTop_upper[of kv es acc] by linarith
  then have "?r \<noteq> acc" by auto
  then obtain i where i: "i < length es" "?r = es ! i" "snd acc < snd (es ! i)"
      "\<forall>j<i. snd (es ! j) < snd (es ! i)"
    using pickTop_origin[of acc es] by blast
  have "\<forall>j < length es. snd (es ! j) \<le> snd (es ! i)"
    using pickTop_upper[of _ es acc] i(2) nth_mem by metis
  then show ?thesis using i by blast
qed

lemma pickTop_first_max:
  assumes "i < length es" "snd acc < snd (es ! i)"
    "\<forall>j < length es. snd (es ! j) \<le> snd (es ! i)" "\<forall>j < i. snd (es ! j) < snd (es ! i)"
  shows "foldl pickTop acc es = es ! i"
proof -
  let ?r = "foldl pickTop acc es"
  have up: "snd (es ! i) \<le> snd ?r" using assms(1) pickTop_upper nth_mem by blast
  then have "?r \<noteq> acc" using assms(2) by auto
  then obtain i' where i': "i' < length es" "?r = es ! i'" "\<forall>j<i'. snd (es ! j) < snd (es ! i')"
    using pickTop_origin[of acc es] by blast
  have "snd (es ! i') = snd (es ! i)" using up i' assms(3) by (metis order_antisym)
  then have "i' = i" using i'(3) assms(4) by (metis less_irrefl nat_neq_iff)
  then show ?thesis using i' by simp
qed


text \<open>
  Claim C5, as amended. The picker returns the first entry, in insertion order, among
  those of greatest value, provided that value is greater than \<open>-1\<close> (not \<open>0\<close>); when no
  entry has a value greater than \<open>-1\<close> it returns \<open>("neutral", -1)\<close>.
\<close>

theorem getTopEmotion_first_greatest:
  "((\<exists>kv \<in> set es. - 1 < snd kv) \<longrightarrow>
      (\<exists>i < length es. getTopEmotion (Some es) = es ! i \<and> - 1 < snd (es ! i)
          \<and> (\<forall>j < length es. snd (es ! j) \<le> snd (es ! i))
          \<and> (\<forall>j < i. snd (es ! j) < snd (es ! i))))
   \<and> (i < length es \<and> - 1 < snd (es ! i) \<and> (\<forall>j < length es. snd (es ! j) \<le> snd (es ! i))
      \<and> (\<forall>j < i. snd (es ! j) < snd (es ! i))
     \<longrightarrow> getTopEmotion (Some es) = es ! i)
   \<and> ((\<forall>kv \<in> set es. snd kv \<le> - 1) \<longrightarrow> getTopEmotion (Some es) = (''neutral'', - 1))"
proof -
  have ex: "(\<exists>kv \<in> set es. - 1 < snd kv) \<longrightarrow>
      (\<exists>i < length es. getTopEmotion (Some es) = es ! i \<and> - 1 < snd (es ! i)
          \<and> (\<forall>j < length es. snd (es ! j) \<le> snd (es ! i))
          \<and> (\<forall>j < i. snd (es ! j) < snd (es ! i)))"
    using pickTop_first_entry[of es "(''neutral'', - 1)"] by (simp add: getTopEmotion_def)
  show ?thesis
    using ex pickTop_first_max[of i es "(''neutral'', - 1)"] pickTop_keep[of es "(''neutral'', - 1)"]
    by (simp add: getTopEmotion_def)
qed

theorem getTopEmotion_first_greatest_witness:
  "getTopEmotion (Some [(''happy'', 0.3), (''sad'', 0.7), (''angry'', 0.7)]) = (''sad'', 0.7)
   \<and> getTopEmotion (Some [(''happy'', 0), (''sad'', 0)]) = (''happy'', 0)
   \<and> getTopEmotion (Some [(''happy'', - 1), (''sad'', - 2)]) = (''neutral'', - 1)"
proof -
  let ?a = "[(''happy'', 0.3), (''sad'', 0.7), (''angry'', 0.7 :: real)]"
  let ?b = "[(''happy'', 0), (''sad'', 0 :: real)]"
  let ?c = "[(''happy'', - 1), (''sad'', - 2 :: real)]"
  have a: "getTopEmotion (Some ?a) = ?a ! 1"
    using getTopEmotion_first_greatest[of ?a 1] by (simp add: All_less_Suc)
  have b: "getTopEmotion (Some ?b) = ?b ! 0"
    using getTopEmotion_first_greatest[of ?b 0] by (simp add: All_less_Suc)
  have c: "getTopEmotion (Some ?c) = (''neutral'', - 1)"
    using getTopEmotion_first_greatest[of ?c 0] by simp
  show ?thesis using a b c by simp
qed

text \<open>
  The claim C5 as stated restricts the pick to entries whose value is greater than 0. On
  the vector \<open>{happy: 0, sad: 0}\<close> the picker returns the entry \<open>happy\<close>, whose value is 0.
\<close>

theorem getTopEmotion_positive_counterexample:
  "getTopEmotion (Some [(''happy'', 0), (''sad'', 0)]) = (''happy'', 0)
   \<and> getTopEmotion (Some [(''happy'', 0), (''sad'', 0)])
        \<notin> {kv \<in> set [(''happy'', 0), (''sad'', 0)]. 0 < snd kv}"
  by (simp add: getTopEmotion_def pickTop_def)


subsection \<open>The frame loop and the average\<close>

lemma addFrame_Nil: "addFrame accum [] = accum"
  by (simp add: addFrame_def)

lemma addFrame_Cons: "addFrame accum (e # es) = addFrame (addEntry accum e) es"
  by (simp add: addFrame_def)

lemma frameLoop_step:
  "frameLoop w src0 (i # rest) accum =
     (if frameThrows w src0 i then Throws
      else frameLoop w src0 rest (addFrame accum (frameExpressions w src0 i)))"
  by (simp add: frameExpressions_def frameThrows_def addFrame_Nil Let_def
      split: outcome.splits option.splits)

lemma frameLoop_fold:
  "frameLoop w src0 is accum =
     (if list_ex (frameThrows w src0) is then Throws
      else Gives (foldl addFrame accum (map (frameExpressions w src0) is)))"
proof (induction "is" arbitrary: accum)
  case Nil
  then show ?case by simp
next
  case (Cons i rest)
  show ?case unfolding frameLoop_step by (simp add: Cons.IH)
qed

lemma orZero_Some: "orZero (Some r) = r"
  by (simp add: orZero_def)

lemma orZero_None: "orZero None = 0"
  by (simp add: orZero_def)

lemma map_of_addEntry:
  "map_of (addEntry accum e) k =
     (if k = fst e then Some (numAdd (orZero (map_of accum k)) (snd e)) else map_of accum k)"
  by (simp add: addEntry_def update_conv')

lemma labelValues_Nil: "labelValues [] k = []"
  by (simp add: labelValues_def)

lemma labelValues_Cons:
  "labelValues (f # fs) k = map snd (filter (\<lambda>kv. fst kv = k) f) @ labelValues fs k"
  by (simp add: labelValues_def)

lemma map_of_addFrame:
  "map_of (addFrame accum es) k =
     (if map snd (filter (\<lambda>kv. fst kv = k) es) = [] then map_of accum k
      else Some (foldl numAdd (orZero (map_of accum k)) (map snd (filter (\<lambda>kv. fst kv = k) es))))"
proof (induction es arbitrary: accum)
  case Nil
  then show ?case by (simp add: addFrame_Nil)
next
  case (Cons e es)
  show ?case
  proof (cases "fst e = k")
    case True
    then show ?thesis
      by (simp add: addFrame_Cons Cons.IH map_of_addEntry orZero_Some)
  next
    case False
    then show ?thesis
      by (simp add: addFrame_Cons Cons.IH map_of_addEntry)
  qed
qed

lemma map_of_frames:
  "map_of (foldl addFrame accum fs) k =
     (if labelValues fs k = [] then map_of accum k
      else Some (foldl numAdd (orZero (map_of accum k)) (labelValues fs k)))"
proof (induction fs arbitrary: accum)
  case Nil
  then show ?case by (simp add: labelValues_Nil)
next
  case (Cons f fs)
  show ?case
  proof (cases "map snd (filter (\<lambda>kv. fst kv = k) f) = []")
    case True
    then show ?thesis
      by (simp add: Cons.IH map_of_addFrame labelValues_Cons)
  next
    case False
    then show ?thesis
      by (simp add: Cons.IH map_of_addFrame labelValues_Cons orZero_Some)
  qed
qed

lemma distinct_addEntry: "distinct (map fst accum) \<Longrightarrow> distinct (map fst (addEntry accum e))"
  by (simp add: addEntry_def distinct_update)

lemma distinct_addFrame: "distinct (map fst accum) \<Longrightarrow> distinct (map fst (addFrame accum es))"
  by (induction es arbitrary: accum) (simp_all add: addFrame_Nil addFrame_Cons distinct_addEntry)

lemma distinct_frames: "distinct (map fst accum) \<Longrightarrow> distinct (map fst (foldl addFrame accum fs))"
  by (induction fs arbitrary: accum) (simp_all add: distinct_addFrame)

lemma averageOf_snoc:
  "averageOf n (xs @ [x]) =
     AList.update (fst x) (numDiv (snd x) (max 1 (real n))) (averageOf n xs)"
  by (simp add: averageOf_def)

lemma map_of_averageOf:
  "distinct (map fst accum) \<Longrightarrow>
   map_of (averageOf n accum) k = map_option (\<lambda>v. numDiv v (max 1 (real n))) (map_of accum k)"
proof (induction accum rule: rev_induct)
  case Nil
  then show ?case by (simp add: averageOf_def)
next
  case (snoc x xs)
  then have IH: "map_of (averageOf n xs) k
                   = map_option (\<lambda>v. numDiv v (max 1 (real n))) (map_of xs k)"
    by simp
  from snoc.prems have notin: "fst x \<notin> fst ` set xs" by simp
  show ?case
  proof (cases "k = fst x")
    case True
    then have "map_of xs k = None" using notin by (simp add: map_of_eq_None_iff)
    then show ?thesis using True by (simp add: averageOf_snoc update_conv' map_add_def)
  next
    case False
    then show ?thesis using IH
      by (cases x) (simp add: averageOf_snoc update_conv' map_add_def split: option.splits)
  qed
qed

lemma map_of_averagedVector:
  "map_of (averagedVector w src0) k =
     (if labelValues (map (frameExpressions w src0) [0..<(if fullModelsLoaded w then 3 else 1)]) k = []
      then None
      else Some (numDiv (foldl numAdd 0
                           (labelValues (map (frameExpressions w src0)
                                           [0..<(if fullModelsLoaded w then 3 else 1)]) k))
                        (if fullModelsLoaded w then 3 else 1)))"
proof -
  let ?n = "frameCount (fullModelsLoaded w)"
  let ?fs = "map (frameExpressions w src0) [0..<?n]"
  have d: "distinct (map fst (foldl addFrame [] ?fs))" by (rule distinct_frames) simp
  have n: "?n = (if fullModelsLoaded w then 3 else 1)" by (simp add: frameCount_def)
  have m: "max 1 (real ?n) = (if fullModelsLoaded w then 3 else 1)" by (simp add: frameCount_def)
  show ?thesis
    unfolding averagedVector_def map_of_averageOf[OF d] m map_of_frames n[symmetric]
    by (simp add: orZero_None)
qed

lemma deepFinal_completes:
  "\<not> list_ex (frameThrows w src0) [0..<frameCount (fullModelsLoaded w)] \<Longrightarrow>
   deepFinal P w src0 =
     Gives (fallbackStage P (classifyResult w) src0 (averagedVector w src0) (localEstimate w src0))"
  by (simp add: deepFinal_def frameLoop_fold averagedVector_def localEstimate_def Let_def)

lemma deepFinal_throws:
  "list_ex (frameThrows w src0) [0..<frameCount (fullModelsLoaded w)] \<Longrightarrow>
   deepFinal P w src0 = Throws"
  by (simp add: deepFinal_def frameLoop_fold Let_def)

lemma threshold_double: "0 < toDouble 0.35 \<and> toDouble 0.35 \<le> 1"
  by code_simp

lemma deepPick_threshold:
  "fst (deepPick averaged) =
     (if snd (getTopEmotion (Some averaged)) < toDouble 0.35 then ''neutral''
      else fst (getTopEmotion (Some averaged)))"
  using threshold_double by (auto simp: deepPick_def Let_def)

lemma sad_average:
  "averagedVector (fullTier sadFrames lm res) ''data:image/jpeg;base64,AAAA''
     = [(''sad'', 7205759403792795 / 36028797018963968)]"
  by code_simp

lemma sad_pick:
  "deepPick [(''sad'', 7205759403792795 / 36028797018963968)]
     = (''neutral'', 7205759403792795 / 36028797018963968)"
  by code_simp

lemma happy_average:
  "averagedVector (fullTier happyFrames lm res) ''data:image/jpeg;base64,AAAA''
     = [(''happy'', 6305039478318693 / 18014398509481984)]"
  by code_simp

lemma happy_pick:
  "deepPick [(''happy'', 6305039478318693 / 18014398509481984)]
     = (''neutral'', 6305039478318693 / 18014398509481984)"
  by code_simp

lemma happy_single_average:
  "averagedVector (fastOnly q (happyFrames 0)) ''data:image/jpeg;base64,AAAA''
     = [(''happy'', 3152519739159347 / 9007199254740992)]"
  by code_simp

lemma happy_single_pick:
  "deepPick [(''happy'', 3152519739159347 / 9007199254740992)]
     = (''happy'', 3152519739159347 / 9007199254740992)"
  by code_simp

lemma fullTier_completes:
  "\<not> list_ex (frameThrows (fullTier frames lm res) src0)
        [0..<(if fullModelsLoaded (fullTier frames lm res) then 3 else 1)]"
  by (simp add: fullTier_def frameThrows_def noSrc_def upt_rec)

lemma fastOnly_completes:
  "\<not> list_ex (frameThrows (fastOnly q d) src0)
        [0..<(if fullModelsLoaded (fastOnly q d) then 3 else 1)]"
  by (simp add: fastOnly_def frameThrows_def noSrc_def)

lemma frames_if: "frameCount (fullModelsLoaded w) = (if fullModelsLoaded w then 3 else 1)"
  by (simp add: frameCount_def)

text \<open>
  Claim C7, as amended. The deep pass runs the frame loop over 3 counters when the full
  tier is loaded and over 1 otherwise, and ends in the \<open>catch\<close> when a frame throws.
  Otherwise its result is that of the fallback stage on the averaged vector and on the
  label picked from it (after the landmark heuristics when the full tier is loaded). The
  averaged vector holds, for each label seen in some frame, the scores the frames give it,
  added in frame order with the addition of doubles and divided by the frame count with
  the division of doubles (a frame that is skipped or shows no face adds nothing), and no
  other label. The label picked from the averaged vector is \<open>"neutral"\<close> when the top
  averaged score is below 0.35, and the top label otherwise.
\<close>

theorem deep_estimator_average:
  "(list_ex (frameThrows w src0) [0..<(if fullModelsLoaded w then 3 else 1)]
      \<longrightarrow> deepFinal P w src0 = Throws)
   \<and> (\<not> list_ex (frameThrows w src0) [0..<(if fullModelsLoaded w then 3 else 1)]
      \<longrightarrow> deepFinal P w src0 =
            Gives (fallbackStage P (classifyResult w) src0 (averagedVector w src0)
                     (if fullModelsLoaded w
                      then landmarkHeuristics (landmarkResult w) (deepPick (averagedVector w src0))
                      else deepPick (averagedVector w src0))))
   \<and> map_of (averagedVector w src0) k =
       (if labelValues (map (frameExpressions w src0)
                          [0..<(if fullModelsLoaded w then 3 else 1)]) k = []
        then None
        else Some (numDiv (foldl numAdd 0
                             (labelValues (map (frameExpressions w src0)
                                             [0..<(if fullModelsLoaded w then 3 else 1)]) k))
                          (if fullModelsLoaded w then 3 else 1)))
   \<and> fst (deepPick (averagedVector w src0)) =
       (if snd (getTopEmotion (Some (averagedVector w src0))) < toDouble 0.35 then ''neutral''
        else fst (getTopEmotion (Some (averagedVector w src0))))"
proof -
  have a: "list_ex (frameThrows w src0) [0..<(if fullModelsLoaded w then 3 else 1)]
      \<longrightarrow> deepFinal P w src0 = Throws"
    using deepFinal_throws[of w src0 P] unfolding frames_if by blast
  have b: "\<not> list_ex (frameThrows w src0) [0..<(if fullModelsLoaded w then 3 else 1)]
      \<longrightarrow> deepFinal P w src0 =
            Gives (fallbackStage P (classifyResult w) src0 (averagedVector w src0)
                     (if fullModelsLoaded w
                      then landmarkHeuristics (landmarkResult w) (deepPick (averagedVector w src0))
                      else deepPick (averagedVector w src0)))"
    using deepFinal_completes[of w src0 P] unfolding frames_if localEstimate_def by blast
  show ?thesis
    using a b map_of_averagedVector[of w src0 k] deepPick_threshold[of "averagedVector w src0"]
    by blast
qed

theorem deep_estimator_average_witness:
  "\<forall>P. deepFinal P (fullTier sadFrames Throws FetchFails) ''data:image/jpeg;base64,AAAA''
        = Gives ((''neutral'', 7205759403792795 / 36028797018963968),
                 [(''data:image/jpeg;base64,AAAA'',
                   [(''sad'', 7205759403792795 / 36028797018963968)])])
      \<and> map_of (averagedVector (fullTier sadFrames Throws FetchFails) ''data:image/jpeg;base64,AAAA'')
            ''sad''
          = Some (numDiv (numAdd (numAdd (numAdd 0 0.1) 0.2) 0.3) 3)
      \<and> fst (deepPick (averagedVector (fullTier happyFrames Throws FetchFails)
                           ''data:image/jpeg;base64,AAAA'')) = ''neutral''
      \<and> fst (deepPick (averagedVector (fastOnly None (happyFrames 0))
                           ''data:image/jpeg;base64,AAAA'')) = ''happy''"
proof
  fix P
  let ?src = "''data:image/jpeg;base64,AAAA''"
  let ?w = "fullTier sadFrames Throws FetchFails"
  let ?h = "fullTier happyFrames Throws FetchFails"
  let ?s = "fastOnly None (happyFrames 0)"
  have full: "fullModelsLoaded ?w" "landmarkResult ?w = Throws" "classifyResult ?w = FetchFails"
    by (simp_all add: fullTier_def)
  have fe: "map (frameExpressions ?w ?src) [0..<3]
              = [[(''sad'', 0.1)], [(''sad'', 0.2)], [(''sad'', 0.3)]]"
    by (simp add: frameExpressions_def fullTier_def sadFrames_def faceWith_def noSrc_def
        optExpressions_def upt_rec)
  have vals: "labelValues [[(''sad'', 0.1)], [(''sad'', 0.2)], [(''sad'', 0.3 :: real)]] ''sad''
                = [0.1, 0.2, 0.3]"
    by (simp add: labelValues_def)
  have deep: "deepFinal P ?w ?src
        = Gives ((''neutral'', 7205759403792795 / 36028797018963968),
                 [(?src, [(''sad'', 7205759403792795 / 36028797018963968)])])"
    using deep_estimator_average[of ?w ?src P "''sad''"] fullTier_completes[of sadFrames Throws FetchFails ?src]
    unfolding sad_average sad_pick
    by (simp add: full landmarkHeuristics_def fallbackStage_def remoteFallback_def)
  have sad: "map_of (averagedVector ?w ?src) ''sad''
          = Some (numDiv (numAdd (numAdd (numAdd 0 0.1) 0.2) 0.3) 3)"
  proof -
    have "map_of (averagedVector ?w ?src) ''sad'' =
       (if labelValues (map (frameExpressions ?w ?src)
                          [0..<(if fullModelsLoaded ?w then 3 else 1)]) ''sad'' = []
        then None
        else Some (numDiv (foldl numAdd 0
                             (labelValues (map (frameExpressions ?w ?src)
                                             [0..<(if fullModelsLoaded ?w then 3 else 1)]) ''sad''))
                          (if fullModelsLoaded ?w then 3 else 1)))"
      using deep_estimator_average[of ?w ?src P "''sad''"] by blast
    then show ?thesis
      by (simp only: full if_True fe vals foldl.simps list.distinct if_False)
  qed
  have top_h: "snd (getTopEmotion (Some (averagedVector ?h ?src))) < toDouble 0.35"
    unfolding happy_average by code_simp
  have happy3: "fst (deepPick (averagedVector ?h ?src)) = ''neutral''"
    using deep_estimator_average[of ?h ?src P "''happy''"] top_h by simp
  have top_s: "\<not> snd (getTopEmotion (Some (averagedVector ?s ?src))) < toDouble 0.35"
    "fst (getTopEmotion (Some (averagedVector ?s ?src))) = ''happy''"
    unfolding happy_single_average by code_simp+
  have happy1: "fst (deepPick (averagedVector ?s ?src)) = ''happy''"
    using deep_estimator_average[of ?s ?src P "''happy''"] top_s by simp
  show "deepFinal P ?w ?src
        = Gives ((''neutral'', 7205759403792795 / 36028797018963968),
                 [(?src, [(''sad'', 7205759403792795 / 36028797018963968)])])
      \<and> map_of (averagedVector ?w ?src) ''sad''
          = Some (numDiv (numAdd (numAdd (numAdd 0 0.1) 0.2) 0.3) 3)
      \<and> fst (deepPick (averagedVector ?h ?src)) = ''neutral''
      \<and> fst (deepPick (averagedVector ?s ?src)) = ''happy''"
    using deep sad happy3 happy1 by blast
qed

text \<open>
  The claim C7 as stated has the scores 0.1, 0.2 and 0.3 of three frames average to 0.2.
  The sum of the three doubles is 0.6000000000000001 and its third 0.20000000000000004,
  which is \<open>7205759403792795 / 2 ^ 55\<close>; the double nearest to 0.2 is
  \<open>7205759403792794 / 2 ^ 55\<close>.
\<close>

theorem deep_average_exact_counterexample:
  "averagedVector (fullTier sadFrames Throws FetchFails) ''data:image/jpeg;base64,AAAA''
     = [(''sad'', 7205759403792795 / 2 ^ 55)]
   \<and> toDouble 0.2 = 7205759403792794 / 2 ^ 55
   \<and> (7205759403792795 / 2 ^ 55 :: real) \<noteq> toDouble 0.2
   \<and> (7205759403792795 / 2 ^ 55 :: real) \<noteq> 0.2"
  by code_simp


subsection \<open>The fast estimator and the arbiter\<close>

lemma captureAndDetect_trace:
  assumes "webcam w" "screenshot w = Some src0" "src0 \<noteq> []" "imageLoads w"
  shows "captureAndDetect P w =
           \<lparr>detected =
              \<lparr>emotion = fst (quickDetect (quickResult w)), imageSrc = src0,
               confidence = snd (quickDetect (quickResult w))\<rparr>
              # fst (backgroundAnalysis P w src0 (quickDetect (quickResult w))),
            requests = snd (backgroundAnalysis P w src0 (quickDetect (quickResult w))),
            errorMessage = None\<rparr>"
  using assms by (simp add: captureAndDetect_def Let_def)

lemma captureAndDetect_detected:
  assumes "webcam w" "screenshot w = Some src0" "src0 \<noteq> []" "imageLoads w"
  shows "detected (captureAndDetect P w) =
           \<lparr>emotion = fst (quickDetect (quickResult w)), imageSrc = src0,
            confidence = snd (quickDetect (quickResult w))\<rparr>
           # fst (backgroundAnalysis P w src0 (quickDetect (quickResult w)))"
  using assms by (simp add: captureAndDetect_def Let_def)

lemma quickDetect_Gives:
  "quickDetect (Gives det) =
     (if snd (getTopEmotion (optExpressions det)) \<ge> 0.2
      then fst (getTopEmotion (optExpressions det)) else ''neutral'',
      max 0.01 (min 0.99 (snd (getTopEmotion (optExpressions det)))))"
  by (simp add: quickDetect_def Let_def)

text \<open>
  Claim C10. \<open>getTopEmotion\<close> of an absent vector is \<open>("neutral", 0)\<close> and of an empty vector
  \<open>("neutral", -1)\<close>. When the fast detector finds no face, the provisional result that
  \<open>captureAndDetect\<close> publishes first is \<open>"neutral"\<close> with confidence 0.01, the floor of the
  clamp, which is not the top score 0 that the picker returned.
\<close>

theorem no_face_provisional:
  "getTopEmotion None = (''neutral'', 0)
   \<and> getTopEmotion (Some []) = (''neutral'', - 1)
   \<and> quickDetect (Gives None) = (''neutral'', 0.01)
   \<and> snd (quickDetect (Gives None)) \<noteq> snd (getTopEmotion None)
   \<and> (webcam w \<and> screenshot w = Some src0 \<and> src0 \<noteq> [] \<and> imageLoads w
        \<and> quickResult w = Gives None
      \<longrightarrow> hd (detected (captureAndDetect P w))
            = \<lparr>emotion = ''neutral'', imageSrc = src0, confidence = 0.01\<rparr>)"
proof -
  have q: "quickDetect (Gives None) = (''neutral'', 0.01)"
    by (simp add: quickDetect_Gives optExpressions_def getTopEmotion_def)
  show ?thesis
    using q by (simp add: captureAndDetect_detected getTopEmotion_def)
qed

theorem no_face_provisional_witness:
  "\<forall>P. hd (detected (captureAndDetect P (fastOnly None None)))
        = \<lparr>emotion = ''neutral'', imageSrc = ''data:image/jpeg;base64,AAAA'', confidence = 0.01\<rparr>"
proof
  fix P
  show "hd (detected (captureAndDetect P (fastOnly None None)))
        = \<lparr>emotion = ''neutral'', imageSrc = ''data:image/jpeg;base64,AAAA'', confidence = 0.01\<rparr>"
    using no_face_provisional[of "fastOnly None None" "''data:image/jpeg;base64,AAAA''" P]
    by (simp add: fastOnly_def)
qed

text \<open>
  Claim C6. When the quick detector answers and the picker returns label \<open>L\<close> with score \<open>s\<close>
  on its expressions, the provisional result published first has emotion \<open>"neutral"\<close> if
  \<open>s < 0.2\<close> and \<open>L\<close> otherwise, and confidence \<open>s\<close> clamped to \<open>[0.01, 0.99]\<close>.
\<close>

theorem fast_estimator_threshold:
  assumes "webcam w" "screenshot w = Some src0" "src0 \<noteq> []" "imageLoads w"
      and "quickResult w = Gives det"
      and "getTopEmotion (optExpressions det) = (L, s)"
  shows "quickDetect (quickResult w)
           = (if s < 0.2 then ''neutral'' else L, max 0.01 (min 0.99 s))
         \<and> hd (detected (captureAndDetect P w))
           = \<lparr>emotion = (if s < 0.2 then ''neutral'' else L), imageSrc = src0,
              confidence = max 0.01 (min 0.99 s)\<rparr>"
  using assms by (simp add: captureAndDetect_detected quickDetect_Gives not_less)

theorem fast_estimator_threshold_witness:
  "\<forall>P. hd (detected (captureAndDetect P (fastOnly (faceWith [(''neutral'', 0.1), (''happy'', 0.21)]) None)))
          = \<lparr>emotion = ''happy'', imageSrc = ''data:image/jpeg;base64,AAAA'', confidence = 0.21\<rparr>
      \<and> hd (detected (captureAndDetect P (fastOnly (faceWith [(''happy'', 0.19), (''sad'', 0.05)]) None)))
          = \<lparr>emotion = ''neutral'', imageSrc = ''data:image/jpeg;base64,AAAA'', confidence = 0.19\<rparr>"
proof
  fix P
  let ?src = "''data:image/jpeg;base64,AAAA''"
  let ?a = "faceWith [(''neutral'', 0.1), (''happy'', 0.21)]"
  let ?b = "faceWith [(''happy'', 0.19), (''sad'', 0.05)]"
  have a: "getTopEmotion (optExpressions ?a) = (''happy'', 0.21)"
    by (simp add: faceWith_def optExpressions_def getTopEmotion_def pickTop_def)
  have b: "getTopEmotion (optExpressions ?b) = (''happy'', 0.19)"
    by (simp add: faceWith_def optExpressions_def getTopEmotion_def pickTop_def)
  have wa: "webcam (fastOnly ?a None)" "screenshot (fastOnly ?a None) = Some ?src"
    "imageLoads (fastOnly ?a None)" "quickResult (fastOnly ?a None) = Gives ?a"
    by (simp_all add: fastOnly_def)
  have wb: "webcam (fastOnly ?b None)" "screenshot (fastOnly ?b None) = Some ?src"
    "imageLoads (fastOnly ?b None)" "quickResult (fastOnly ?b None) = Gives ?b"
    by (simp_all add: fastOnly_def)
  have ne: "?src \<noteq> []" by simp
  show "hd (detected (captureAndDetect P (fastOnly ?a None)))
          = \<lparr>emotion = ''happy'', imageSrc = ?src, confidence = 0.21\<rparr>
      \<and> hd (detected (captureAndDetect P (fastOnly ?b None)))
          = \<lparr>emotion = ''neutral'', imageSrc = ?src, confidence = 0.19\<rparr>"
    using fast_estimator_threshold[OF wa(1) wa(2) ne wa(3) wa(4) a, of P]
          fast_estimator_threshold[OF wb(1) wb(2) ne wb(3) wb(4) b, of P]
    by simp
qed


text \<open>
  Claim C1. For a provisional result (quickEmotion, quickConfidence) and a final result
  (finalEmotion, finalConfidence) of the background analysis: when the two emotions are
  equal, \<open>onDetected\<close> is called once only (the provisional result); when they differ and
  the final emotion is not empty, it is called a second time, with the final result, if and
  only if \<open>finalConfidence \<ge> quickConfidence + 0.15\<close> or \<open>finalConfidence \<ge> 0.5\<close>, where the
  sum is the sum of doubles that the source computes.
\<close>

theorem arbiter_policy:
  assumes "webcam w" "screenshot w = Some src0" "src0 \<noteq> []" "imageLoads w"
      and "quickDetect (quickResult w) = (quickEmotion, quickConfidence)"
      and "deepFinal P w src0 = Gives ((finalEmotion, finalConfidence), reqs)"
  shows "(finalEmotion = quickEmotion \<longrightarrow>
            detected (captureAndDetect P w)
              = [\<lparr>emotion = quickEmotion, imageSrc = src0, confidence = quickConfidence\<rparr>])
       \<and> (finalEmotion \<noteq> quickEmotion \<and> finalEmotion \<noteq> [] \<longrightarrow>
            detected (captureAndDetect P w)
              = (if toDouble finalConfidence \<ge> numAdd quickConfidence 0.15
                    \<or> toDouble finalConfidence \<ge> 0.5
                 then [\<lparr>emotion = quickEmotion, imageSrc = src0, confidence = quickConfidence\<rparr>,
                       \<lparr>emotion = finalEmotion, imageSrc = src0, confidence = finalConfidence\<rparr>]
                 else [\<lparr>emotion = quickEmotion, imageSrc = src0, confidence = quickConfidence\<rparr>]))"
  using assms half_double
  by (simp add: captureAndDetect_detected backgroundAnalysis_def arbiter_def Let_def)

lemma fastOnly_deepFinal:
  "deepFinal P (fastOnly q (faceWith [(''sad'', c)])) ''data:image/jpeg;base64,AAAA''
     = Gives (fallbackStage P FetchFails ''data:image/jpeg;base64,AAAA''
                [(''sad'', numDiv (numAdd 0 c) 1)] (deepPick [(''sad'', numDiv (numAdd 0 c) 1)]))"
  by (simp add: deepFinal_def fastOnly_def faceWith_def noSrc_def
      optExpressions_def addFrame_def addEntry_def orZero_def averageOf_def frameCount_def Let_def)

lemma single_frame_values:
  "numDiv (numAdd 0 0.44999999999999996) 1 = 2026619832316723 / 4503599627370496"
  "numDiv (numAdd 0 0.5) 1 = 0.5"
  "numDiv (numAdd 0 0.45) 1 = 8106479329266893 / 18014398509481984"
  by code_simp+

lemma single_frame_picks:
  "deepPick [(''sad'', 2026619832316723 / 4503599627370496)]
     = (''sad'', 2026619832316723 / 4503599627370496)"
  "deepPick [(''sad'', 0.5)] = (''sad'', 0.5)"
  "deepPick [(''sad'', 8106479329266893 / 18014398509481984)]
     = (''sad'', 8106479329266893 / 18014398509481984)"
  by code_simp+

lemma arbiter_sums:
  "numAdd 0.3 0.15 \<le> toDouble (2026619832316723 / 4503599627370496)"
  "\<not> numAdd 0.4 0.15 \<le> toDouble (8106479329266893 / 18014398509481984)"
  "\<not> 0.5 \<le> toDouble (8106479329266893 / 18014398509481984)"
  "\<not> toDouble 0.3 + toDouble 0.15 \<le> toDouble (2026619832316723 / 4503599627370496)"
  by code_simp+

theorem arbiter_policy_witness:
  "\<forall>P. detected (captureAndDetect P
              (fastOnly (faceWith [(''happy'', 0.3)]) (faceWith [(''sad'', 0.44999999999999996)])))
          = [\<lparr>emotion = ''happy'', imageSrc = ''data:image/jpeg;base64,AAAA'', confidence = 0.3\<rparr>,
             \<lparr>emotion = ''sad'', imageSrc = ''data:image/jpeg;base64,AAAA'',
              confidence = 2026619832316723 / 4503599627370496\<rparr>]
      \<and> detected (captureAndDetect P (fastOnly (faceWith [(''happy'', 0.4)]) (faceWith [(''sad'', 0.5)])))
          = [\<lparr>emotion = ''happy'', imageSrc = ''data:image/jpeg;base64,AAAA'', confidence = 0.4\<rparr>,
             \<lparr>emotion = ''sad'', imageSrc = ''data:image/jpeg;base64,AAAA'', confidence = 0.5\<rparr>]
      \<and> detected (captureAndDetect P (fastOnly (faceWith [(''happy'', 0.4)]) (faceWith [(''sad'', 0.45)])))
          = [\<lparr>emotion = ''happy'', imageSrc = ''data:image/jpeg;base64,AAAA'', confidence = 0.4\<rparr>]
      \<and> detected (captureAndDetect P (fastOnly (faceWith [(''sad'', 0.4)]) (faceWith [(''sad'', 0.5)])))
          = [\<lparr>emotion = ''sad'', imageSrc = ''data:image/jpeg;base64,AAAA'', confidence = 0.4\<rparr>]"
proof
  fix P
  let ?src = "''data:image/jpeg;base64,AAAA''"
  let ?h3 = "faceWith [(''happy'', 0.3)]"
  let ?h = "faceWith [(''happy'', 0.4)]"
  let ?s = "faceWith [(''sad'', 0.4)]"
  have q3: "\<And>d. quickDetect (quickResult (fastOnly ?h3 d)) = (''happy'', 0.3)"
    by (simp add: fastOnly_def quickDetect_Gives faceWith_def optExpressions_def
        getTopEmotion_def pickTop_def)
  have qh: "\<And>d. quickDetect (quickResult (fastOnly ?h d)) = (''happy'', 0.4)"
    by (simp add: fastOnly_def quickDetect_Gives faceWith_def optExpressions_def
        getTopEmotion_def pickTop_def)
  have qs: "\<And>d. quickDetect (quickResult (fastOnly ?s d)) = (''sad'', 0.4)"
    by (simp add: fastOnly_def quickDetect_Gives faceWith_def optExpressions_def
        getTopEmotion_def pickTop_def)
  have w: "\<And>q d. webcam (fastOnly q d)" "\<And>q d. screenshot (fastOnly q d) = Some ?src"
    "\<And>q d. imageLoads (fastOnly q d)"
    by (simp_all add: fastOnly_def)
  have ne: "?src \<noteq> []" by simp
  have d0: "\<And>q. deepFinal P (fastOnly q (faceWith [(''sad'', 0.44999999999999996)])) ?src
              = Gives ((''sad'', 2026619832316723 / 4503599627370496), [])"
    unfolding fastOnly_deepFinal single_frame_values single_frame_picks
    by (simp add: fallbackStage_def)
  have d1: "\<And>q. deepFinal P (fastOnly q (faceWith [(''sad'', 0.5)])) ?src = Gives ((''sad'', 0.5), [])"
    unfolding fastOnly_deepFinal single_frame_values single_frame_picks
    by (simp add: fallbackStage_def)
  have d2: "\<And>q. deepFinal P (fastOnly q (faceWith [(''sad'', 0.45)])) ?src
              = Gives ((''sad'', 8106479329266893 / 18014398509481984), [])"
    unfolding fastOnly_deepFinal single_frame_values single_frame_picks
    by (simp add: fallbackStage_def)
  have a: "detected (captureAndDetect P (fastOnly ?h3 (faceWith [(''sad'', 0.44999999999999996)])))
          = [\<lparr>emotion = ''happy'', imageSrc = ?src, confidence = 0.3\<rparr>,
             \<lparr>emotion = ''sad'', imageSrc = ?src,
              confidence = 2026619832316723 / 4503599627370496\<rparr>]"
    using arbiter_policy[OF w(1) w(2) ne w(3) q3 d0] arbiter_sums(1) by simp
  have b: "detected (captureAndDetect P (fastOnly ?h (faceWith [(''sad'', 0.5)])))
          = [\<lparr>emotion = ''happy'', imageSrc = ?src, confidence = 0.4\<rparr>,
             \<lparr>emotion = ''sad'', imageSrc = ?src, confidence = 0.5\<rparr>]"
    using arbiter_policy[OF w(1) w(2) ne w(3) qh d1] half_double by simp
  have c: "detected (captureAndDetect P (fastOnly ?h (faceWith [(''sad'', 0.45)])))
          = [\<lparr>emotion = ''happy'', imageSrc = ?src, confidence = 0.4\<rparr>]"
    using arbiter_policy[OF w(1) w(2) ne w(3) qh d2] arbiter_sums(2,3) by simp
  have d: "detected (captureAndDetect P (fastOnly ?s (faceWith [(''sad'', 0.5)])))
          = [\<lparr>emotion = ''sad'', imageSrc = ?src, confidence = 0.4\<rparr>]"
    using arbiter_policy[OF w(1) w(2) ne w(3) qs d1] by simp
  show "detected (captureAndDetect P (fastOnly ?h3 (faceWith [(''sad'', 0.44999999999999996)])))
          = [\<lparr>emotion = ''happy'', imageSrc = ?src, confidence = 0.3\<rparr>,
             \<lparr>emotion = ''sad'', imageSrc = ?src,
              confidence = 2026619832316723 / 4503599627370496\<rparr>]
      \<and> detected (captureAndDetect P (fastOnly ?h (faceWith [(''sad'', 0.5)])))
          = [\<lparr>emotion = ''happy'', imageSrc = ?src, confidence = 0.4\<rparr>,
             \<lparr>emotion = ''sad'', imageSrc = ?src, confidence = 0.5\<rparr>]
      \<and> detected (captureAndDetect P (fastOnly ?h (faceWith [(''sad'', 0.45)])))
          = [\<lparr>emotion = ''happy'', imageSrc = ?src, confidence = 0.4\<rparr>]
      \<and> detected (captureAndDetect P (fastOnly ?s (faceWith [(''sad'', 0.5)])))
          = [\<lparr>emotion = ''sad'', imageSrc = ?src, confidence = 0.4\<rparr>]"
    using a b c d by blast
qed

subsection \<open>Landmark heuristics\<close>

lemma hypot_horizontal: "hypot a 0 = \<bar>a\<bar>"
  by (simp add: hypot_def)

lemma geometry_frown: "geometry frown = Some (1 / 20, 2 / 5, 1 / 10)"
  by (simp add: geometry_def frown_def pt_def elemAt_def orElse_def orOne_def hypot_horizontal)

lemma geometry_pout: "geometry pout = Some (1 / 20, 2 / 5, - (1 / 10))"
  by (simp add: geometry_def pout_def frown_def pt_def elemAt_def orElse_def orOne_def
      hypot_horizontal)

lemma applyOverrides_cases:
  "applyOverrides exprs (dep, width, brow) fin =
     (if 0.03 < brow \<and> width < 0.45
      then (''angry'',
            max (if 0.045 < dep \<or> 0.18 < scoreOr exprs ''sad'' 0
                 then max (snd fin) (scoreOr exprs ''sad'' 0.6) else snd fin)
                (scoreOr exprs ''angry'' 0.6))
      else if 0.045 < dep \<or> 0.18 < scoreOr exprs ''sad'' 0
      then (''sad'', max (snd fin) (scoreOr exprs ''sad'' 0.6))
      else fin)"
  by (simp add: applyOverrides_def sadCondition_def angryCondition_def Let_def)

text \<open>
  Claim C2, as amended. For a detection with landmarks and expressions whose ratios are
  (depression, width, gap): the two overrides are independent statements, the angry one
  last. When \<open>gap > 0.03\<close> and \<open>width < 0.45\<close> the label after the heuristics is \<open>"angry"\<close>,
  also when the sad condition holds, and the confidence is the greater of the angry score
  (or 0.6) and the confidence left by the sad override. When the angry condition fails and
  the sad condition holds (\<open>depression > 0.045\<close>, or a sad score above 0.18), the label is
  \<open>"sad"\<close> with confidence max(current, sad score or 0.6). Otherwise the result is
  unchanged.
\<close>

theorem landmark_override_order:
  assumes "landmarks d = Some lm" "expressions d = Some exprs"
      and "geometry lm = Some (dep, width, gap)"
  shows "landmarkHeuristics (Gives (Some d)) fin =
     (if 0.03 < gap \<and> width < 0.45
      then (''angry'',
            max (if 0.045 < dep \<or> 0.18 < scoreOr exprs ''sad'' 0
                 then max (snd fin) (scoreOr exprs ''sad'' 0.6) else snd fin)
                (scoreOr exprs ''angry'' 0.6))
      else if 0.045 < dep \<or> 0.18 < scoreOr exprs ''sad'' 0
      then (''sad'', max (snd fin) (scoreOr exprs ''sad'' 0.6))
      else fin)"
  using assms by (simp add: landmarkHeuristics_def applyOverrides_cases)

theorem landmark_override_order_witness:
  "landmarkHeuristics
     (Gives (Some \<lparr>expressions = Some [(''sad'', 0.3), (''angry'', 0.1)], landmarks = Some frown\<rparr>))
     (''neutral'', 0.2) = (''angry'', 0.3)
   \<and> landmarkHeuristics
     (Gives (Some \<lparr>expressions = Some [(''sad'', 0.3), (''angry'', 0.1)], landmarks = Some pout\<rparr>))
     (''neutral'', 0.2) = (''sad'', 0.3)"
proof -
  let ?e = "[(''sad'', 0.3), (''angry'', 0.1 :: real)]"
  have a: "landmarks \<lparr>expressions = Some ?e, landmarks = Some frown\<rparr> = Some frown"
    and b: "expressions \<lparr>expressions = Some ?e, landmarks = Some frown\<rparr> = Some ?e"
    and c: "landmarks \<lparr>expressions = Some ?e, landmarks = Some pout\<rparr> = Some pout"
    and d: "expressions \<lparr>expressions = Some ?e, landmarks = Some pout\<rparr> = Some ?e"
    by simp_all
  show ?thesis
    using landmark_override_order[OF a b geometry_frown, of "(''neutral'', 0.2)"]
          landmark_override_order[OF c d geometry_pout, of "(''neutral'', 0.2)"]
    by (simp add: scoreOr_def)
qed

text \<open>
  The claim C2 as stated makes the angry override an else-branch of the sad one. On the
  landmarks \<open>frown\<close> the depression is 0.05, above 0.045, so the sad condition holds; the
  angry condition holds too, and the label after the heuristics is \<open>"angry"\<close>.
\<close>

theorem landmark_sad_precedence_counterexample:
  "geometry frown = Some (0.05, 0.4, 0.1)
   \<and> sadCondition [(''sad'', 0.3), (''angry'', 0.1)] (0.05, 0.4, 0.1)
   \<and> angryCondition (0.05, 0.4, 0.1)
   \<and> fst (landmarkHeuristics
        (Gives (Some \<lparr>expressions = Some [(''sad'', 0.3), (''angry'', 0.1)],
                      landmarks = Some frown\<rparr>))
        (''neutral'', 0.2)) = ''angry''
   \<and> ''angry'' \<noteq> ''sad''"
  by (simp add: geometry_frown sadCondition_def angryCondition_def landmarkHeuristics_def
      applyOverrides_cases scoreOr_def)

subsection \<open>Sanitisation in the classify route\<close>

lemma sanitize_emotion_allowed: "fst (sanitize P parsed) \<in> set allowed"
  by (simp add: sanitize_def Let_def allowed_def)

lemma sanitize_confidence_range: "0 \<le> snd (sanitize P parsed) \<and> snd (sanitize P parsed) \<le> 1"
  by (simp add: sanitize_def Let_def)

lemma sanitize_confidence_nonzero:
  "toNumber P (parsed_confidence parsed) = Some c \<Longrightarrow> c \<noteq> 0 \<Longrightarrow>
   snd (sanitize P parsed) = clamp01 c"
  by (simp add: sanitize_def Let_def clamp01_def)

lemma sanitize_confidence_default:
  "toNumber P (parsed_confidence parsed) = None \<or> toNumber P (parsed_confidence parsed) = Some 0 \<Longrightarrow>
   snd (sanitize P parsed) = 0.5"
  by (auto simp: sanitize_def Let_def)




subsection \<open>Remote fallback\<close>












text \<open>
  One run through every stage: three frames with sad scores 0.1, 0.2 and 0.3 and no
  landmarks average to 0.20000000000000004, the label is neutral, the route answers sad
  with 0.8, and the arbiter replaces the provisional neutral result.
\<close>

lemma arbiter_replaces: "toDouble 0.5 \<le> toDouble 0.8"
  by code_simp

lemma three_frames_run:
  "captureAndDetect P
     (fullTier sadFrames (Gives (sadFrames 0))
        (Response True (Gives \<lparr>data_emotion = JStr ''sad'', data_confidence = JNum 0.8\<rparr>)))
   = \<lparr>detected = [\<lparr>emotion = ''neutral'', imageSrc = ''data:image/jpeg;base64,AAAA'', confidence = 0.1\<rparr>,
                  \<lparr>emotion = ''sad'', imageSrc = ''data:image/jpeg;base64,AAAA'', confidence = 0.8\<rparr>],
      requests = [(''data:image/jpeg;base64,AAAA'', [(''sad'', 7205759403792795 / 36028797018963968)])],
      errorMessage = None\<rparr>"
proof -
  let ?res = "Response True (Gives \<lparr>data_emotion = JStr ''sad'', data_confidence = JNum 0.8\<rparr>)"
  let ?w = "fullTier sadFrames (Gives (sadFrames 0)) ?res"
  let ?src = "''data:image/jpeg;base64,AAAA''"
  have n: "\<not> list_ex (frameThrows ?w ?src) [0..<frameCount (fullModelsLoaded ?w)]"
    using fullTier_completes[of sadFrames "Gives (sadFrames 0)" ?res ?src]
    by (simp add: frames_if)
  have loc: "localEstimate ?w ?src = (''neutral'', 7205759403792795 / 36028797018963968)"
    unfolding localEstimate_def sad_average sad_pick
    by (simp add: fullTier_def sadFrames_def faceWith_def landmarkHeuristics_def)
  have res: "classifyResult ?w = ?res" by (simp add: fullTier_def)
  have deep: "deepFinal P ?w ?src = Gives ((''sad'', 0.8), [(?src, [(''sad'', 7205759403792795 / 36028797018963968)])])"
    unfolding deepFinal_completes[OF n] loc sad_average res
    by (simp add: fallbackStage_def remoteFallback_def)
  have quick: "quickDetect (quickResult ?w) = (''neutral'', 0.1)"
    by (simp add: fullTier_def sadFrames_def faceWith_def quickDetect_Gives optExpressions_def
        getTopEmotion_def pickTop_def)
  have bg: "backgroundAnalysis P ?w ?src (''neutral'', 0.1)
             = ([\<lparr>emotion = ''sad'', imageSrc = ?src, confidence = 0.8\<rparr>], [(?src, [(''sad'', 7205759403792795 / 36028797018963968)])])"
    unfolding backgroundAnalysis_def deep using arbiter_replaces by (simp add: arbiter_def)
  have cap: "webcam ?w" "screenshot ?w = Some ?src" "imageLoads ?w"
    by (simp_all add: fullTier_def)
  have ne: "?src \<noteq> []" by simp
  show ?thesis
    unfolding captureAndDetect_trace[OF cap(1) cap(2) ne cap(3)] quick bg by simp
qed

subsection \<open>The classify route\<close>




text \<open>
  Claim C4 at the input \<open>{emotion: "happy", confidence: 0}\<close>. The confidence 0 is numeric
  and \<open>clamp(0, 0, 1) = 0\<close>, but \<open>Number(0) || 0.5\<close> is \<open>0.5\<close>: the route answers with
  confidence 0.5.
\<close>

theorem sanitize_zero_confidence:
  "\<forall>P. sanitize P \<lparr>parsed_emotion = JStr ''happy'', parsed_confidence = JNum 0\<rparr> = (''happy'', 0.5)
      \<and> toNumber P (JNum 0) = Some 0
      \<and> clamp01 0 = 0
      \<and> handleOpenAIClassify P (Some ''sk-test'')
           (Some \<lparr>image = JStr ''data:image/jpeg;base64,AAAA'', req_expressions = JUndefined\<rparr>)
           (CallReturns \<lparr>textJson = Some \<lparr>parsed_emotion = JStr ''happy'', parsed_confidence = JNum 0\<rparr>,
                         rawJson = None\<rparr>)
           CallFails
         = \<lparr>status = 200, body = Classified ''happy'' 0.5 None\<rparr>"
  by (simp add: sanitize_def toLowerCase_def toLowerChar_def allowed_def clamp01_def
      handleOpenAIClassify_def noKey_def respond_def parseResponse_def)

text \<open>
  What the sanitisation does guarantee, for every parsed object: the emotion is one of
  the seven labels, and is the lower-cased input when that is one of them; the confidence
  lies in [0,1], is \<open>clamp(c, 0, 1)\<close> when the input converts to a number \<open>c\<close> other than
  zero, and is 0.5 when it converts to NaN or to zero.
\<close>

theorem sanitize_invariant:
  "fst (sanitize P parsed) \<in> set allowed
   \<and> 0 \<le> snd (sanitize P parsed) \<and> snd (sanitize P parsed) \<le> 1
   \<and> (parsed_emotion parsed = JStr s \<and> toLowerCase s \<in> set allowed
        \<longrightarrow> fst (sanitize P parsed) = toLowerCase s)
   \<and> (toNumber P (parsed_confidence parsed) = Some c \<and> c \<noteq> 0
        \<longrightarrow> snd (sanitize P parsed) = clamp01 c)
   \<and> (toNumber P (parsed_confidence parsed) = None \<or> toNumber P (parsed_confidence parsed) = Some 0
        \<longrightarrow> snd (sanitize P parsed) = 0.5)"
proof -
  have e: "parsed_emotion parsed = JStr s \<and> toLowerCase s \<in> set allowed
        \<longrightarrow> fst (sanitize P parsed) = toLowerCase s"
  proof
    assume a: "parsed_emotion parsed = JStr s \<and> toLowerCase s \<in> set allowed"
    then have "s \<noteq> []" by (auto simp: toLowerCase_def allowed_def)
    then show "fst (sanitize P parsed) = toLowerCase s"
      using a by (simp add: sanitize_def Let_def)
  qed
  show ?thesis
    using sanitize_emotion_allowed[of P parsed] sanitize_confidence_range[of P parsed]
          sanitize_confidence_nonzero[of P parsed c] sanitize_confidence_default[of P parsed] e
    by blast
qed

theorem sanitize_invariant_witness:
  "\<forall>P. sanitize P \<lparr>parsed_emotion = JStr ''Sad'', parsed_confidence = JNum 1.7\<rparr> = (''sad'', 1)
      \<and> sanitize P \<lparr>parsed_emotion = JStr ''bored'', parsed_confidence = JUndefined\<rparr>
          = (''neutral'', 0.5)"
proof
  fix P
  let ?a = "\<lparr>parsed_emotion = JStr ''Sad'', parsed_confidence = JNum 1.7\<rparr>"
  let ?b = "\<lparr>parsed_emotion = JStr ''bored'', parsed_confidence = JUndefined\<rparr>"
  have low: "toLowerCase ''Sad'' = ''sad''" by (simp add: toLowerCase_def toLowerChar_def)
  have a: "sanitize P ?a = (''sad'', 1)"
    using sanitize_invariant[of P ?a "''Sad''" "1.7"] low
    by (simp add: allowed_def clamp01_def prod_eq_iff)
  have "fst (sanitize P ?b) = ''neutral''"
    by (simp add: sanitize_def toLowerCase_def toLowerChar_def allowed_def)
  then have b: "sanitize P ?b = (''neutral'', 0.5)"
    using sanitize_invariant[of P ?b "''bored''" 0]
    by (simp add: prod_eq_iff)
  show "sanitize P ?a = (''sad'', 1) \<and> sanitize P ?b = (''neutral'', 0.5)"
    using a b by blast
qed

subsection \<open>The suggestion provider\<close>

text \<open>
  Claim C9, as amended. For the emotion \<open>"angry"\<close> exactly one request is made, to the quote
  proxy. When the response is \<open>ok\<close> and its body is read, the suggestion shown is the
  returned quote, or the literal \<open>"Breathe. Reset. Refocus."\<close> when the body has no quote.
  When the request is rejected, the response is not \<open>ok\<close>, or the body cannot be read, the
  error text \<open>"Failed to fetch suggestion. Please try again."\<close> is shown and the message is
  left as it was.
\<close>

theorem angry_suggestion:
  "snd (run P ''angry'' net st) = [''/api/quote'']
   \<and> (quoteResp net = Resp True (Gives quote) \<longrightarrow>
        displayed (fst (run P ''angry'' net st))
          = (if truthy quote then quote else JStr ''Breathe. Reset. Refocus.'')
        \<and> error (fst (run P ''angry'' net st)) = None)
   \<and> (quoteResp net = NetworkError \<or> quoteResp net = Resp False b
        \<or> quoteResp net = Resp True Throws \<longrightarrow>
        displayed (fst (run P ''angry'' net st))
          = JStr ''Failed to fetch suggestion. Please try again.''
        \<and> message (fst (run P ''angry'' net st)) = message st)"
  by (auto simp: run_def suggestionText_def displayed_def Let_def
      split: fetched.splits outcome.splits)

theorem angry_suggestion_witness:
  "\<forall>P. run P ''angry''
          \<lparr>jokeA = NetworkError, jokeB = NetworkError,
           quoteResp = Resp True (Gives (JStr ''Stay calm.''))\<rparr>
          \<lparr>message = JStr [], loading = False, error = None\<rparr>
        = (\<lparr>message = JStr ''Stay calm.'', loading = False, error = None\<rparr>, [''/api/quote''])
      \<and> displayed (fst (run P ''angry''
          \<lparr>jokeA = NetworkError, jokeB = NetworkError, quoteResp = Resp True (Gives JUndefined)\<rparr>
          \<lparr>message = JStr [], loading = False, error = None\<rparr>))
        = JStr ''Breathe. Reset. Refocus.''
      \<and> displayed (fst (run P ''angry''
          \<lparr>jokeA = NetworkError, jokeB = NetworkError, quoteResp = NetworkError\<rparr>
          \<lparr>message = JStr [], loading = False, error = None\<rparr>))
        = JStr ''Failed to fetch suggestion. Please try again.''"
proof
  fix P
  let ?st = "\<lparr>message = JStr [], loading = False, error = None\<rparr>"
  let ?ok = "\<lparr>jokeA = NetworkError, jokeB = NetworkError,
              quoteResp = Resp True (Gives (JStr ''Stay calm.''))\<rparr>"
  let ?empty = "\<lparr>jokeA = NetworkError, jokeB = NetworkError, quoteResp = Resp True (Gives JUndefined)\<rparr>"
  let ?down = "\<lparr>jokeA = NetworkError, jokeB = NetworkError, quoteResp = NetworkError\<rparr>"
  have a: "run P ''angry'' ?ok ?st
        = (\<lparr>message = JStr ''Stay calm.'', loading = False, error = None\<rparr>, [''/api/quote''])"
    using angry_suggestion[of P ?ok ?st "JStr ''Stay calm.''"]
    by (simp add: run_def suggestionText_def Let_def)
  have b: "displayed (fst (run P ''angry'' ?empty ?st)) = JStr ''Breathe. Reset. Refocus.''"
    using angry_suggestion[of P ?empty ?st JUndefined] by simp
  have c: "displayed (fst (run P ''angry'' ?down ?st))
        = JStr ''Failed to fetch suggestion. Please try again.''"
    using angry_suggestion[of P ?down ?st] by simp
  show "run P ''angry'' ?ok ?st
        = (\<lparr>message = JStr ''Stay calm.'', loading = False, error = None\<rparr>, [''/api/quote''])
      \<and> displayed (fst (run P ''angry'' ?empty ?st)) = JStr ''Breathe. Reset. Refocus.''
      \<and> displayed (fst (run P ''angry'' ?down ?st))
        = JStr ''Failed to fetch suggestion. Please try again.''"
    using a b c by blast
qed

text \<open>
  The claim C9 as stated shows the fallback literal when the fetch of the quote fails. When
  the quote proxy answers 502, and when the request is rejected, the error text is shown,
  and the message stays empty.
\<close>

theorem angry_fetch_failure_counterexample:
  "\<forall>P. displayed (fst (run P ''angry''
          \<lparr>jokeA = NetworkError, jokeB = NetworkError, quoteResp = Resp False (Gives JUndefined)\<rparr>
          \<lparr>message = JStr [], loading = False, error = None\<rparr>))
        = JStr ''Failed to fetch suggestion. Please try again.''
      \<and> displayed (fst (run P ''angry''
          \<lparr>jokeA = NetworkError, jokeB = NetworkError, quoteResp = NetworkError\<rparr>
          \<lparr>message = JStr [], loading = False, error = None\<rparr>))
        \<noteq> JStr ''Breathe. Reset. Refocus.''
      \<and> message (fst (run P ''angry''
          \<lparr>jokeA = NetworkError, jokeB = NetworkError, quoteResp = Resp False (Gives JUndefined)\<rparr>
          \<lparr>message = JStr [], loading = False, error = None\<rparr>)) = JStr []"
  by (simp add: run_def suggestionText_def displayed_def Let_def)

end
